theory Spec2Isabelle
  imports Main "HOL-Library.Word" "HOL-Library.AList"
begin

unbundle bit_operations_syntax

section \<open>Mode bits\<close>

text \<open>
  \<open>os.FileMode\<close> is a \<open>uint32\<close>; Go's \<open>int\<close> is taken as 64 bits wide. The constants
  are those of the source (\<open>S_IWUSR\<close>, \<open>S_IRWXU\<close>, \<open>S_ISUID\<close>, \<open>S_ISGID\<close>) and those
  of package \<open>os\<close> (\<open>ModePerm = 0777\<close>, \<open>ModeSetuid = 1 << 23\<close>, \<open>ModeSetgid = 1 << 22\<close>,
  \<open>ModeSticky = 1 << 20\<close>). Octal literals are written in hexadecimal.
\<close>

type_synonym FileMode = "32 word"
type_synonym gint = "64 word"

definition S_IWUSR :: "'a::len word" where "S_IWUSR = 0x80"
definition S_IRWXU :: "'a::len word" where "S_IRWXU = 0x1C0"
definition S_ISUID :: "'a::len word" where "S_ISUID = 0x800"
definition S_ISGID :: "'a::len word" where "S_ISGID = 0x400"

definition ModePerm :: FileMode where "ModePerm = 0x1FF"
definition ModeSetuid :: FileMode where "ModeSetuid = 0x800000"
definition ModeSetgid :: FileMode where "ModeSetgid = 0x400000"
definition ModeSticky :: FileMode where "ModeSticky = 0x100000"

definition toPosixPerm :: "FileMode \<Rightarrow> gint" where
  "toPosixPerm perm =
     (let pp = perm AND ModePerm;
          pp = (if perm AND ModeSetuid \<noteq> 0 then pp OR S_ISUID else pp);
          pp = (if perm AND ModeSetgid \<noteq> 0 then pp OR S_ISGID else pp)
      in ucast pp)"

definition toStdPerm :: "gint \<Rightarrow> FileMode" where
  "toStdPerm posixPerm =
     (let perm = ucast posixPerm AND ModePerm;
          perm = (if posixPerm AND S_ISUID \<noteq> 0 then perm OR ModeSetuid else perm);
          perm = (if posixPerm AND S_ISGID \<noteq> 0 then perm OR ModeSetgid else perm)
      in perm)"

text \<open>
  The bits a POSIX mode may carry over the wire (\<open>0777\<close>, setuid \<open>04000\<close>, setgid
  \<open>02000\<close>) and their counterparts in an \<open>os.FileMode\<close>.
\<close>

definition posix_permitted :: gint where
  "posix_permitted = 0x1FF OR S_ISUID OR S_ISGID"

definition std_permitted :: FileMode where
  "std_permitted = ModePerm OR ModeSetuid OR ModeSetgid"

section \<open>Errors\<close>

text \<open>
  Go's \<open>error\<close> values of the program: \<open>FatalError\<close> (a string type), \<open>AccError\<close> (a
  slice of errors) and every other error (\<open>errors.New\<close>, errors of the operating system
  and of the streams), which carries only its message. A nil error is \<open>None\<close>.
\<close>

datatype error = Plain string | FatalError string | AccError "error list"

fun join_sp :: "string list \<Rightarrow> string" where
  "join_sp [] = []"
| "join_sp [s] = s"
| "join_sp (s # t # ss) = s @ '' '' @ join_sp (t # ss)"

text \<open>\<open>fmt.Sprintln\<close>: the operands separated by spaces, and a newline.\<close>

definition Sprintln :: "string list \<Rightarrow> string" where
  "Sprintln ss = join_sp ss @ [CHR 0x0A]"

fun Error :: "error \<Rightarrow> string" where
  "Error (Plain s) = s"
| "Error (FatalError s) = s"
| "Error (AccError es) = Sprintln (map Error es)"

fun isFatal :: "error option \<Rightarrow> bool" where
  "isFatal (Some (FatalError s)) = True"
| "isFatal e = False"

definition protocolErr :: error where
  "protocolErr = FatalError ''protocol error''"

definition MaxErrLen :: nat where
  "MaxErrLen = 1024"

section \<open>The environment\<close>

text \<open>
  The streams and the file system the program works on. \<open>opts.in\<close> delivers the bytes of
  \<open>inp\<close> and then ends: with \<open>io.EOF\<close> when \<open>inp_err\<close> is \<open>None\<close>, with that read error
  otherwise; one \<open>Read\<close> of a bulk copy delivers at most \<open>Suc chunk\<close> bytes. \<open>opts.out\<close>
  has received \<open>outp\<close> and accepts \<open>out_room\<close> more bytes before its writes fail (\<open>None\<close>:
  they never fail). The file system maps a path to a node; \<open>denied\<close> lists the calls of
  the operating system that fail, with their messages; \<open>disk_room\<close> bounds the bytes that
  can still be written to files, \<open>fread_ok\<close> the bytes that can be read from a file before
  a read error. A new node gets the times \<open>now\<close>. \<open>oslog\<close> records every call of the
  operating system, in order.
\<close>

datatype kind = Regular | Directory | Special

record Timeval =
  Sec :: int
  Usec :: int

record FileTimes =
  Atime :: Timeval
  Mtime :: Timeval

record node =
  nkind :: kind
  nperm :: FileMode
  ndata :: string
  ntimes :: FileTimes

datatype fsop = OpStat | OpOpenFile | OpOpen | OpFStat | OpTruncate | OpSync | OpFChmod
  | OpUtimes | OpChmod | OpMkdir | OpReaddir

record world =
  inp :: string
  inp_err :: "string option"
  chunk :: nat
  outp :: string
  out_room :: "nat option"
  fs :: "(string \<times> node) list"
  denied :: "((fsop \<times> string) \<times> string) list"
  disk_room :: "nat option"
  fread_ok :: "nat option"
  umask :: FileMode
  now :: FileTimes
  oslog :: "(fsop \<times> string) list"

record options =
  iamRecursive :: bool
  targetDir :: bool
  preserveAttrs :: bool

definition deny :: "world \<Rightarrow> fsop \<Rightarrow> string \<Rightarrow> string option" where
  "deny w op p = map_of (denied w) (op, p)"

definition EPIPE :: string where "EPIPE = ''write: broken pipe''"
definition ENOSPC :: string where "ENOSPC = ''write: no space left on device''"
definition EIO :: string where "EIO = ''read: input/output error''"

subsection \<open>Streams\<close>

datatype rd = RByte char | REOF | RErr string

text \<open>\<open>opts.in.Read\<close> on a buffer of one byte.\<close>

definition read_byte :: "world \<Rightarrow> world \<times> rd" where
  "read_byte w =
     (case inp w of
        c # cs \<Rightarrow> (w\<lparr>inp := cs\<rparr>, RByte c)
      | [] \<Rightarrow> (w, case inp_err w of None \<Rightarrow> REOF | Some e \<Rightarrow> RErr e))"

text \<open>The message of the error a failed read returns (\<open>io.EOF\<close> prints as \<open>EOF\<close>).\<close>

definition read_err_msg :: "world \<Rightarrow> string" where
  "read_err_msg w = (case inp_err w of None \<Rightarrow> ''EOF'' | Some e \<Rightarrow> e)"

text \<open>
  \<open>readLine\<close>: bytes are appended to \<open>l\<close> until a newline is read; a failed read gives up
  the line.
\<close>

fun readLine_loop :: "string \<Rightarrow> string \<Rightarrow> (string \<times> string) option" where
  "readLine_loop l [] = None"
| "readLine_loop l (ch # cs) =
     (if ch = CHR 0x0A then Some (l, cs) else readLine_loop (l @ [ch]) cs)"

definition readLine :: "world \<Rightarrow> world \<times> (string + string)" where
  "readLine w =
     (case readLine_loop [] (inp w) of
        None \<Rightarrow> (w\<lparr>inp := []\<rparr>, Inl (read_err_msg w))
      | Some (l, cs) \<Rightarrow> (w\<lparr>inp := cs\<rparr>, Inr l))"

text \<open>A write to \<open>opts.out\<close>: what fits is written, and the write fails if not all did.\<close>

definition write_out :: "world \<Rightarrow> string \<Rightarrow> world \<times> string option" where
  "write_out w s =
     (case out_room w of
        None \<Rightarrow> (w\<lparr>outp := outp w @ s\<rparr>, None)
      | Some r \<Rightarrow>
          if length s \<le> r then (w\<lparr>outp := outp w @ s, out_room := Some (r - length s)\<rparr>, None)
          else (w\<lparr>outp := outp w @ take r s, out_room := Some 0\<rparr>, Some EPIPE))"

subsection \<open>Error lines\<close>

text \<open>\<open>strings.Replace(s, "\\n", "; ", -1)\<close>.\<close>

fun replace_nl :: "string \<Rightarrow> string" where
  "replace_nl [] = []"
| "replace_nl (c # cs) = (if c = CHR 0x0A then ''; '' else [c]) @ replace_nl cs"

definition errLine :: "string \<Rightarrow> string" where
  "errLine msg =
     (let line = replace_nl msg
      in if length line > MaxErrLen - 3 then take (MaxErrLen - 6) line @ ''...'' else line)"

definition sendError :: "world \<Rightarrow> error \<Rightarrow> world \<times> error option" where
  "sendError w err =
     (case write_out w ([CHR 0x01] @ errLine (Error err) @ [CHR 0x0A]) of
        (w', Some e) \<Rightarrow> (w', Some (FatalError e))
      | (w', None) \<Rightarrow> (w', None))"

text \<open>
  \<open>teeError\<close> returns the error of \<open>sendError\<close> if there is one, its argument otherwise.
\<close>

definition teeError :: "world \<Rightarrow> error \<Rightarrow> world \<times> error option" where
  "teeError w err =
     (case sendError w err of
        (w', Some e) \<Rightarrow> (w', Some e)
      | (w', None) \<Rightarrow> (w', Some err))"

text \<open>\<open>ack\<close>: one byte, and a line after a byte that is not zero.\<close>

definition ack :: "world \<Rightarrow> world \<times> error option" where
  "ack w =
     (case read_byte w of
        (w1, REOF) \<Rightarrow> (w1, Some (FatalError ''EOF''))
      | (w1, RErr e) \<Rightarrow> (w1, Some (FatalError e))
      | (w1, RByte k) \<Rightarrow>
          if k = CHR 0x00 then (w1, None)
          else (case readLine w1 of
                  (w2, Inl e) \<Rightarrow> (w2, Some (FatalError e))
                | (w2, Inr l) \<Rightarrow>
                    if k = CHR 0x01 then (w2, Some (Plain l))
                    else if k = CHR 0x02 then (w2, Some (FatalError l))
                    else (w2, Some protocolErr)))"

section \<open>Parsing header lines\<close>

text \<open>
  \<open>fmt.Sscanf\<close> reads its input rune by rune. The runes of a string are what package
  \<open>utf8\<close> decodes: a byte that starts no valid encoding is \<open>utf8.RuneError\<close> (\<open>U+FFFD\<close>) of
  width 1. Bytes and runes are integers here.
\<close>

definition RuneError :: int where
  "RuneError = 0xFFFD"

text \<open>The range of the second byte that package \<open>utf8\<close> accepts after a first byte.\<close>

definition accept_lo :: "int \<Rightarrow> int" where
  "accept_lo b0 = (if b0 = 0xE0 then 0xA0 else if b0 = 0xF0 then 0x90 else 0x80)"

definition accept_hi :: "int \<Rightarrow> int" where
  "accept_hi b0 = (if b0 = 0xED then 0x9F else if b0 = 0xF4 then 0x8F else 0xBF)"

definition cont_byte :: "int \<Rightarrow> bool" where
  "cont_byte b = (0x80 \<le> b \<and> b \<le> 0xBF)"

text \<open>\<open>utf8.DecodeRune\<close>: the rune and its width.\<close>

definition DecodeRune :: "int list \<Rightarrow> int \<times> nat" where
  "DecodeRune p =
     (case p of
        [] \<Rightarrow> (RuneError, 0)
      | b0 # p1 \<Rightarrow>
          if b0 < 0x80 then (b0, 1)
          else if b0 < 0xC2 \<or> 0xF4 < b0 then (RuneError, 1)
          else
            (case p1 of
               [] \<Rightarrow> (RuneError, 1)
             | b1 # p2 \<Rightarrow>
                 if b1 < accept_lo b0 \<or> accept_hi b0 < b1 then (RuneError, 1)
                 else if b0 < 0xE0 then ((b0 - 0xC0) * 64 + (b1 - 0x80), 2)
                 else
                   (case p2 of
                      [] \<Rightarrow> (RuneError, 1)
                    | b2 # p3 \<Rightarrow>
                        if \<not> cont_byte b2 then (RuneError, 1)
                        else if b0 < 0xF0
                          then ((b0 - 0xE0) * 4096 + (b1 - 0x80) * 64 + (b2 - 0x80), 3)
                        else
                          (case p3 of
                             [] \<Rightarrow> (RuneError, 1)
                           | b3 # p4 \<Rightarrow>
                               if \<not> cont_byte b3 then (RuneError, 1)
                               else ((b0 - 0xF0) * 262144 + (b1 - 0x80) * 4096
                                       + (b2 - 0x80) * 64 + (b3 - 0x80), 4)))))"

fun utf8_runes :: "int list \<Rightarrow> int list" where
  "utf8_runes [] = []"
| "utf8_runes (b # bs) =
     fst (DecodeRune (b # bs)) # utf8_runes (drop (snd (DecodeRune (b # bs)) - 1) bs)"

text \<open>\<open>utf8.EncodeRune\<close>, by which the runes of a token become a string again.\<close>

definition EncodeRune :: "int \<Rightarrow> int list" where
  "EncodeRune r =
     (if r \<le> 0x7F then [r]
      else if r \<le> 0x7FF then [0xC0 + r div 64, 0x80 + r mod 64]
      else if 0x10FFFF < r \<or> (0xD800 \<le> r \<and> r \<le> 0xDFFF) then [0xEF, 0xBF, 0xBD]
      else if r \<le> 0xFFFF
        then [0xE0 + r div 4096, 0x80 + r div 64 mod 64, 0x80 + r mod 64]
      else [0xF0 + r div 262144, 0x80 + r div 4096 mod 64, 0x80 + r div 64 mod 64,
            0x80 + r mod 64])"

definition runes_string :: "int list \<Rightarrow> string" where
  "runes_string rs = map char_of (concat (map EncodeRune rs))"

text \<open>
  \<open>isSpace\<close> of package \<open>fmt\<close>: the white space of Unicode, the newline among it.
\<close>

definition isSpace :: "int \<Rightarrow> bool" where
  "isSpace r =
     ((0x09 \<le> r \<and> r \<le> 0x0D) \<or> r = 0x20 \<or> r = 0x85 \<or> r = 0xA0 \<or> r = 0x1680
      \<or> (0x2000 \<le> r \<and> r \<le> 0x200A) \<or> r = 0x2028 \<or> r = 0x2029 \<or> r = 0x202F
      \<or> r = 0x205F \<or> r = 0x3000)"

text \<open>
  \<open>SkipSpace\<close>, in the mode of \<open>Sscanf\<close>: white space is skipped, a newline is an error.
\<close>

fun SkipSpace :: "int list \<Rightarrow> string + int list" where
  "SkipSpace [] = Inr []"
| "SkipSpace (r # rs) =
     (if r = 0x0A then Inl ''unexpected newline''
      else if isSpace r then SkipSpace rs
      else Inr (r # rs))"

text \<open>
  A space in the format (\<open>advance\<close>): the input is at its end, or has at least one space;
  a newline is an error.
\<close>

definition advance_space :: "int list \<Rightarrow> string + int list" where
  "advance_space rs =
     (case rs of
        [] \<Rightarrow> Inr []
      | r # rs' \<Rightarrow>
          if \<not> isSpace r then Inl ''expected space in input to match format''
          else if r = 0x0A then Inl ''newline in input does not match format''
          else Inr (dropWhile (\<lambda>c. isSpace c \<and> c \<noteq> 0x0A) rs'))"

text \<open>
  The digits \<open>scanNumber\<close> accepts for a base: an underscore is among them, and
  \<open>strconv.ParseInt\<close> then refuses it.
\<close>

definition digit_ok :: "int \<Rightarrow> int \<Rightarrow> bool" where
  "digit_ok base r = ((48 \<le> r \<and> r < 48 + base) \<or> r = 95)"

fun digits_val :: "int \<Rightarrow> int \<Rightarrow> int list \<Rightarrow> int" where
  "digits_val base acc [] = acc"
| "digits_val base acc (c # cs) = digits_val base (acc * base + (c - 48)) cs"

text \<open>The text of a \<open>strconv.NumError\<close> of \<open>ParseInt\<close>.\<close>

definition NumError :: "string \<Rightarrow> string \<Rightarrow> string" where
  "NumError tok msg =
     ''strconv.ParseInt: parsing '' @ [CHR 0x22] @ tok @ [CHR 0x22] @ '': '' @ msg"

text \<open>
  \<open>scanInt\<close> for the verbs \<open>%o\<close> (base 8) and \<open>%d\<close> (base 10) and an operand of 64 bits:
  \<open>SkipSpace\<close>, an optional sign, the digits, and their conversion by
  \<open>strconv.ParseInt\<close>. The end of the input where the number or its digits should start
  is \<open>io.EOF\<close>.
\<close>

definition scanInt :: "int \<Rightarrow> int list \<Rightarrow> string + (int \<times> int list)" where
  "scanInt base rs =
     (case SkipSpace rs of
        Inl e \<Rightarrow> Inl e
      | Inr [] \<Rightarrow> Inl ''EOF''
      | Inr (c # cs) \<Rightarrow>
          let s2 = (if c = 45 \<or> c = 43 then cs else c # cs);
              digs = takeWhile (digit_ok base) s2;
              rest = dropWhile (digit_ok base) s2;
              tok = map char_of ((if c = 45 \<or> c = 43 then [c] else []) @ digs);
              v = (if c = 45 then - digits_val base 0 digs else digits_val base 0 digs)
          in if s2 = [] then Inl ''EOF''
             else if digs = [] then Inl ''expected integer''
             else if 95 \<in> set digs then Inl (NumError tok ''invalid syntax'')
             else if v < - (2 ^ 63) \<or> 2 ^ 63 \<le> v then Inl (NumError tok ''value out of range'')
             else Inr (v, rest))"

text \<open>
  \<open>convertString\<close> for the verb \<open>%s\<close>: \<open>SkipSpace\<close>, then the runes up to the next white
  space.
\<close>

definition scanStr :: "int list \<Rightarrow> string + (string \<times> int list)" where
  "scanStr rs =
     (case SkipSpace rs of
        Inl e \<Rightarrow> Inl e
      | Inr [] \<Rightarrow> Inl ''EOF''
      | Inr (c # cs) \<Rightarrow>
          Inr (runes_string (takeWhile (\<lambda>r. \<not> isSpace r) (c # cs)),
               dropWhile (\<lambda>r. \<not> isSpace r) (c # cs)))"

text \<open>
  \<open>fmt.Sscanf(line, "%o %d %s", ...)\<close>: the error, or the count of operands and their
  values. What follows the last operand is ignored.
\<close>

definition Sscanf_ods :: "string \<Rightarrow> string + (nat \<times> int \<times> int \<times> string)" where
  "Sscanf_ods line =
     (case scanInt 8 (utf8_runes (map of_char line)) of
        Inl e \<Rightarrow> Inl e
      | Inr (pperm, r1) \<Rightarrow>
          (case advance_space r1 of
             Inl e \<Rightarrow> Inl e
           | Inr r1' \<Rightarrow>
               (case scanInt 10 r1' of
                  Inl e \<Rightarrow> Inl e
                | Inr (sz, r2) \<Rightarrow>
                    (case advance_space r2 of
                       Inl e \<Rightarrow> Inl e
                     | Inr r2' \<Rightarrow>
                         (case scanStr r2' of
                            Inl e \<Rightarrow> Inl e
                          | Inr (name, r3) \<Rightarrow> Inr (3, pperm, sz, name))))))"

text \<open>\<open>fmt.Sscanf(line, "%d %d %d %d", ...)\<close>, in the order of the operands.\<close>

definition Sscanf_dddd :: "string \<Rightarrow> string + (nat \<times> int \<times> int \<times> int \<times> int)" where
  "Sscanf_dddd line =
     (case scanInt 10 (utf8_runes (map of_char line)) of
        Inl e \<Rightarrow> Inl e
      | Inr (a, r1) \<Rightarrow>
          (case advance_space r1 of
             Inl e \<Rightarrow> Inl e
           | Inr r1' \<Rightarrow>
               (case scanInt 10 r1' of
                  Inl e \<Rightarrow> Inl e
                | Inr (b, r2) \<Rightarrow>
                    (case advance_space r2 of
                       Inl e \<Rightarrow> Inl e
                     | Inr r2' \<Rightarrow>
                         (case scanInt 10 r2' of
                            Inl e \<Rightarrow> Inl e
                          | Inr (c, r3) \<Rightarrow>
                              (case advance_space r3 of
                                 Inl e \<Rightarrow> Inl e
                               | Inr r3' \<Rightarrow>
                                   (case scanInt 10 r3' of
                                      Inl e \<Rightarrow> Inl e
                                    | Inr (d, r4) \<Rightarrow> Inr (4, a, b, c, d))))))))"

definition parseSubj :: "string \<Rightarrow> error + (FileMode \<times> int \<times> string)" where
  "parseSubj line =
     (case Sscanf_ods line of
        Inl e \<Rightarrow> Inl (Plain e)
      | Inr (n, pperm, sz, name) \<Rightarrow>
          if n \<noteq> 3 then Inl protocolErr
          else if name = ''..'' \<or> CHR ''/'' \<in> set name
            then Inl (FatalError (name @ '': invalid name''))
          else Inr (toStdPerm (word_of_int pperm), sz, name))"

section \<open>Paths\<close>

text \<open>
  \<open>path.Join\<close>: the elements that are not empty, joined by slashes and cleaned
  (\<open>path.Clean\<close>: no empty and no \<open>.\<close> element, \<open>..\<close> removes the element before it).
\<close>

fun split_slash :: "string \<Rightarrow> string \<Rightarrow> string list" where
  "split_slash cur [] = [cur]"
| "split_slash cur (c # cs) =
     (if c = CHR ''/'' then cur # split_slash [] cs else split_slash (cur @ [c]) cs)"

fun clean_elems :: "bool \<Rightarrow> string list \<Rightarrow> string list \<Rightarrow> string list" where
  "clean_elems rooted st [] = rev st"
| "clean_elems rooted st (e # es) =
     (if e = [] \<or> e = ''.'' then clean_elems rooted st es
      else if e = ''..'' then
        (case st of
           [] \<Rightarrow> if rooted then clean_elems rooted [] es else clean_elems rooted [e] es
         | t # st' \<Rightarrow>
             if t = ''..'' then clean_elems rooted (e # st) es
             else clean_elems rooted st' es)
      else clean_elems rooted (e # st) es)"

fun join_slash :: "string list \<Rightarrow> string" where
  "join_slash [] = []"
| "join_slash [s] = s"
| "join_slash (s # t # ss) = s @ ''/'' @ join_slash (t # ss)"

definition path_Clean :: "string \<Rightarrow> string" where
  "path_Clean p =
     (case p of
        [] \<Rightarrow> ''.''
      | c # cs \<Rightarrow>
          let body = join_slash (clean_elems (c = CHR ''/'') [] (split_slash [] p))
          in if c = CHR ''/'' then CHR ''/'' # body
             else if body = [] then ''.'' else body)"

definition path_Join :: "string \<Rightarrow> string \<Rightarrow> string" where
  "path_Join a b =
     (case filter (\<lambda>e. e \<noteq> []) [a, b] of
        [] \<Rightarrow> []
      | es \<Rightarrow> path_Clean (join_slash es))"

text \<open>The name a \<open>FileInfo\<close> reports: the last element of the path that was opened.\<close>

definition base_name :: "string \<Rightarrow> string" where
  "base_name p =
     (case dropWhile (\<lambda>c. c = CHR ''/'') (rev p) of
        [] \<Rightarrow> take 1 p
      | c # cs \<Rightarrow> rev (c # takeWhile (\<lambda>d. d \<noteq> CHR ''/'') cs))"

section \<open>The file system\<close>

definition logop :: "world \<Rightarrow> fsop \<Rightarrow> string \<Rightarrow> world" where
  "logop w op p = w\<lparr>oslog := oslog w @ [(op, p)]\<rparr>"

definition lookup :: "world \<Rightarrow> string \<Rightarrow> node option" where
  "lookup w p = map_of (fs w) p"

definition store :: "world \<Rightarrow> string \<Rightarrow> node \<Rightarrow> world" where
  "store w p n = w\<lparr>fs := AList.update p n (fs w)\<rparr>"

definition IsDir :: "node \<Rightarrow> bool" where
  "IsDir st = (nkind st = Directory)"

definition IsRegular :: "node \<Rightarrow> bool" where
  "IsRegular st = (nkind st = Regular)"

text \<open>The mode bits a file keeps: permissions, setuid, setgid and sticky.\<close>

definition perm_bits :: FileMode where
  "perm_bits = ModePerm OR ModeSetuid OR ModeSetgid OR ModeSticky"

datatype oserr = ENOENT string | EOTHER string

fun oserr_msg :: "oserr \<Rightarrow> string" where
  "oserr_msg (ENOENT m) = m"
| "oserr_msg (EOTHER m) = m"

fun IsNotExist :: "oserr \<Rightarrow> bool" where
  "IsNotExist (ENOENT m) = True"
| "IsNotExist (EOTHER m) = False"

definition os_Stat :: "world \<Rightarrow> string \<Rightarrow> world \<times> (oserr + node)" where
  "os_Stat w p =
     (logop w OpStat p,
      case deny w OpStat p of
        Some e \<Rightarrow> Inl (EOTHER e)
      | None \<Rightarrow>
          (case lookup w p of
             None \<Rightarrow> Inl (ENOENT (''stat '' @ p @ '': no such file or directory''))
           | Some n \<Rightarrow> Inr n))"

text \<open>
  \<open>OpenFile(name, O_WRONLY|O_CREATE, mode)\<close>: a file that exists is opened as it is, one
  that does not is created empty with the mode, less the umask. The handle is the path.
\<close>

definition os_OpenFile :: "world \<Rightarrow> string \<Rightarrow> FileMode \<Rightarrow> world \<times> string option" where
  "os_OpenFile w name mode =
     (case deny w OpOpenFile name of
        Some e \<Rightarrow> (logop w OpOpenFile name, Some e)
      | None \<Rightarrow>
          (case lookup w name of
             Some n \<Rightarrow>
               if nkind n = Directory
               then (logop w OpOpenFile name, Some (''open '' @ name @ '': is a directory''))
               else (logop w OpOpenFile name, None)
           | None \<Rightarrow>
               (store (logop w OpOpenFile name) name
                  \<lparr>nkind = Regular, nperm = (mode AND perm_bits) AND NOT (umask w),
                   ndata = [], ntimes = now w\<rparr>,
                None)))"

text \<open>\<open>Open(name)\<close>, for reading.\<close>

definition os_Open :: "world \<Rightarrow> string \<Rightarrow> world \<times> string option" where
  "os_Open w name =
     (logop w OpOpen name,
      case deny w OpOpen name of
        Some e \<Rightarrow> Some e
      | None \<Rightarrow>
          (case lookup w name of
             None \<Rightarrow> Some (''open '' @ name @ '': no such file or directory'')
           | Some n \<Rightarrow> None))"

definition f_Stat :: "world \<Rightarrow> string \<Rightarrow> world \<times> (string + node)" where
  "f_Stat w name =
     (logop w OpFStat name,
      case deny w OpFStat name of
        Some e \<Rightarrow> Inl e
      | None \<Rightarrow>
          (case lookup w name of
             None \<Rightarrow> Inl (''stat '' @ name @ '': bad file descriptor'')
           | Some n \<Rightarrow> Inr n))"

text \<open>A write through a handle opened without \<open>O_APPEND\<close> or \<open>O_TRUNC\<close>, from offset 0.\<close>

definition file_write :: "world \<Rightarrow> string \<Rightarrow> string \<Rightarrow> world" where
  "file_write w name bytes =
     (case lookup w name of
        None \<Rightarrow> w
      | Some n \<Rightarrow> store w name (n\<lparr>ndata := bytes @ drop (length bytes) (ndata n)\<rparr>))"

definition f_Truncate :: "world \<Rightarrow> string \<Rightarrow> int \<Rightarrow> world \<times> string option" where
  "f_Truncate w name sz =
     (case deny w OpTruncate name of
        Some e \<Rightarrow> (logop w OpTruncate name, Some e)
      | None \<Rightarrow>
          if sz < 0 then (logop w OpTruncate name, Some (''truncate '' @ name @ '': invalid argument''))
          else (case lookup w name of
                  None \<Rightarrow> (logop w OpTruncate name, Some (''truncate '' @ name @ '': bad file descriptor''))
                | Some n \<Rightarrow>
                    (store (logop w OpTruncate name) name
                       (n\<lparr>ndata := take (nat sz) (ndata n)
                                     @ replicate (nat sz - length (ndata n)) (CHR 0x00)\<rparr>),
                     None)))"

definition f_Sync :: "world \<Rightarrow> string \<Rightarrow> world \<times> string option" where
  "f_Sync w name = (logop w OpSync name, deny w OpSync name)"

definition set_perm :: "world \<Rightarrow> fsop \<Rightarrow> string \<Rightarrow> FileMode \<Rightarrow> world \<times> string option" where
  "set_perm w op name perm =
     (case deny w op name of
        Some e \<Rightarrow> (logop w op name, Some e)
      | None \<Rightarrow>
          (case lookup w name of
             None \<Rightarrow> (logop w op name, Some (''chmod '' @ name @ '': no such file or directory''))
           | Some n \<Rightarrow> (store (logop w op name) name (n\<lparr>nperm := perm AND perm_bits\<rparr>), None)))"

definition f_Chmod :: "world \<Rightarrow> string \<Rightarrow> FileMode \<Rightarrow> world \<times> string option" where
  "f_Chmod w name perm = set_perm w OpFChmod name perm"

definition os_Chmod :: "world \<Rightarrow> string \<Rightarrow> FileMode \<Rightarrow> world \<times> string option" where
  "os_Chmod w name perm = set_perm w OpChmod name perm"

text \<open>
  \<open>syscall.Utimes\<close>: microseconds outside \<open>0 .. 999999\<close> are an invalid argument, whatever
  the path.
\<close>

definition usec_ok :: "Timeval \<Rightarrow> bool" where
  "usec_ok tv = (0 \<le> Usec tv \<and> Usec tv < 1000000)"

definition Utimes :: "world \<Rightarrow> string \<Rightarrow> FileTimes \<Rightarrow> world \<times> string option" where
  "Utimes w name t =
     (case deny w OpUtimes name of
        Some e \<Rightarrow> (logop w OpUtimes name, Some e)
      | None \<Rightarrow>
          if \<not> (usec_ok (Atime t) \<and> usec_ok (Mtime t))
          then (logop w OpUtimes name, Some ''invalid argument'')
          else (case lookup w name of
                  None \<Rightarrow> (logop w OpUtimes name, Some ''no such file or directory'')
                | Some n \<Rightarrow> (store (logop w OpUtimes name) name (n\<lparr>ntimes := t\<rparr>), None)))"

definition os_Mkdir :: "world \<Rightarrow> string \<Rightarrow> FileMode \<Rightarrow> world \<times> string option" where
  "os_Mkdir w name mode =
     (case deny w OpMkdir name of
        Some e \<Rightarrow> (logop w OpMkdir name, Some e)
      | None \<Rightarrow>
          (case lookup w name of
             Some n \<Rightarrow> (logop w OpMkdir name, Some (''mkdir '' @ name @ '': file exists''))
           | None \<Rightarrow>
               (store (logop w OpMkdir name) name
                  \<lparr>nkind = Directory, nperm = (mode AND perm_bits) AND NOT (umask w),
                   ndata = [], ntimes = now w\<rparr>,
                None)))"

subsection \<open>Bulk copies\<close>

text \<open>
  \<open>io.Copy(f, io.LimitReader(opts.in, size))\<close>: reads of at most \<open>Suc chunk\<close> bytes, each
  written to the file before the next. It ends without an error at the limit and at the
  end of the input, with the read error after the bytes that were read, and with the
  write error in the chunk the disk has no room for: then the whole chunk has been taken
  from the input and only a part of it written. The result is the count of bytes written
  and the error.
\<close>

definition copy_to_file :: "world \<Rightarrow> string \<Rightarrow> int \<Rightarrow> world \<times> int \<times> string option" where
  "copy_to_file w name sz =
     (let avail = take (nat sz) (inp w);
          m = length avail;
          c = Suc (chunk w)
      in case (case disk_room w of
                 None \<Rightarrow> None
               | Some r \<Rightarrow> if r < m then Some r else None) of
           Some r \<Rightarrow>
             (file_write (w\<lparr>inp := drop (min m ((r div c + 1) * c)) (inp w),
                            disk_room := Some 0\<rparr>) name (take r avail),
              int r, Some ENOSPC)
         | None \<Rightarrow>
             (file_write (w\<lparr>inp := drop m (inp w),
                            disk_room := map_option (\<lambda>r. r - m) (disk_room w)\<rparr>) name avail,
              int m, if m < nat sz then inp_err w else None))"

text \<open>\<open>io.Copy(ioutil.Discard, io.LimitReader(opts.in, n))\<close>\<close>

definition drain :: "world \<Rightarrow> int \<Rightarrow> world \<times> string option" where
  "drain w n =
     (w\<lparr>inp := drop (nat n) (inp w)\<rparr>,
      if length (inp w) < nat n then inp_err w else None)"

section \<open>Sink\<close>

text \<open>A call that may fail, and the list of pending errors it adds its error to.\<close>

definition pend :: "error list \<Rightarrow> world \<times> string option \<Rightarrow> world \<times> error list" where
  "pend pendErrs r =
     (case r of
        (w, Some e) \<Rightarrow> (w, pendErrs @ [Plain e])
      | (w, None) \<Rightarrow> (w, pendErrs))"

text \<open>\<open>fmt.Fprint(opts.out, "\\x00")\<close>, with the error the callers make of a failure.\<close>

definition put_zero :: "world \<Rightarrow> world \<times> error option" where
  "put_zero w =
     (case write_out w [CHR 0x00] of
        (w', Some e) \<Rightarrow> (w', Some (FatalError e))
      | (w', None) \<Rightarrow> (w', None))"

definition prepareDir :: "options \<Rightarrow> world \<Rightarrow> string \<Rightarrow> FileMode \<Rightarrow> world \<times> bool \<times> error option" where
  "prepareDir opts w name perm =
     (case os_Stat w name of
        (w1, Inr st) \<Rightarrow>
          if \<not> IsDir st then (w1, False, Some (Plain (name @ '': is not a directory'')))
          else if preserveAttrs opts then
            (case os_Chmod w1 name perm of
               (w2, Some e) \<Rightarrow> (w2, False, Some (Plain e))
             | (w2, None) \<Rightarrow> (w2, False, None))
          else (w1, False, None)
      | (w1, Inl err) \<Rightarrow>
          if IsNotExist err then
            (case os_Mkdir w1 name (perm OR S_IRWXU) of
               (w2, Some e) \<Rightarrow> (w2, False, Some (Plain e))
             | (w2, None) \<Rightarrow> (w2, True, None))
          else (w1, False, Some (Plain (oserr_msg err))))"

text \<open>
  \<open>sinkFile\<close>, in the four parts it runs through. The first goes from the header line to
  the byte that asks for the payload: it returns early with an error, or goes on with the
  permissions, the size, the name of the file, whether the destination existed, and the
  \<open>FileInfo\<close> of the open file.
\<close>

definition sinkFile_open ::
  "world \<Rightarrow> string \<Rightarrow> string
     \<Rightarrow> (world \<times> error option) + (world \<times> FileMode \<times> int \<times> string \<times> bool \<times> node)" where
  "sinkFile_open w name line =
     (case parseSubj line of
        Inl err \<Rightarrow> Inl (teeError w (FatalError (Error err)))
      | Inr (perm, sz, subj) \<Rightarrow>
          (case os_Stat w name of
             (w1, r) \<Rightarrow>
               let exists = (case r of Inr st \<Rightarrow> True | Inl err \<Rightarrow> False);
                   name = (case r of
                             Inr st \<Rightarrow> if IsDir st then path_Join name subj else name
                           | Inl err \<Rightarrow> name)
               in (case os_OpenFile w1 name (perm OR S_IWUSR) of
                     (w2, Some e) \<Rightarrow> Inl (teeError w2 (Plain e))
                   | (w2, None) \<Rightarrow>
                       (case f_Stat w2 name of
                          (w3, Inl e) \<Rightarrow> Inl (teeError w3 (Plain e))
                        | (w3, Inr st) \<Rightarrow>
                            (case put_zero w3 of
                               (w4, Some e) \<Rightarrow> Inl (w4, Some e)
                             | (w4, None) \<Rightarrow> Inr (w4, perm, sz, name, exists, st))))))"

text \<open>
  The payload: a failed copy is followed by the drain of \<open>size - wr\<close> bytes; the copy's
  error becomes pending, the drain's error is fatal.
\<close>

definition sinkFile_copy ::
  "world \<Rightarrow> string \<Rightarrow> int \<Rightarrow> (world \<times> error option) + (world \<times> error list)" where
  "sinkFile_copy w name sz =
     (case copy_to_file w name sz of
        (w1, wr, None) \<Rightarrow> Inr (w1, [])
      | (w1, wr, Some err) \<Rightarrow>
          (case drain w1 (sz - wr) of
             (w2, Some e) \<Rightarrow> Inl (teeError w2 (FatalError e))
           | (w2, None) \<Rightarrow> Inr (w2, [Plain err])))"

text \<open>Truncate, sync, chmod and utimes: each failure becomes pending.\<close>

definition sinkFile_attrs ::
  "options \<Rightarrow> world \<Rightarrow> string \<Rightarrow> FileMode \<Rightarrow> int \<Rightarrow> bool \<Rightarrow> node \<Rightarrow> FileTimes option
     \<Rightarrow> error list \<Rightarrow> world \<times> error list" where
  "sinkFile_attrs opts w name perm sz exists st tms pendErrs =
     (case (if \<not> exists \<or> IsRegular st then pend pendErrs (f_Truncate w name sz)
            else (w, pendErrs)) of
        (w1, p1) \<Rightarrow>
          (case pend p1 (f_Sync w1 name) of
             (w2, p2) \<Rightarrow>
               (case (if preserveAttrs opts \<or> \<not> exists then pend p2 (f_Chmod w2 name perm)
                      else (w2, p2)) of
                  (w3, p3) \<Rightarrow>
                    (case tms of
                       None \<Rightarrow> (w3, p3)
                     | Some t \<Rightarrow> pend p3 (Utimes w3 name t)))))"

text \<open>The acknowledgement of the peer, and the report of the pending errors to it.\<close>

definition sinkFile_reply :: "world \<Rightarrow> error list \<Rightarrow> world \<times> error option" where
  "sinkFile_reply w pendErrs =
     (case ack w of
        (w1, ackErr) \<Rightarrow>
          if isFatal ackErr then (w1, ackErr)
          else (case (if pendErrs \<noteq> [] then sendError w1 (AccError pendErrs)
                      else put_zero w1) of
                  (w2, Some e) \<Rightarrow> (w2, Some e)
                | (w2, None) \<Rightarrow>
                    (case ackErr of
                       Some a \<Rightarrow> (w2, Some (AccError (pendErrs @ [a])))
                     | None \<Rightarrow> (w2, if pendErrs \<noteq> [] then Some (AccError pendErrs) else None))))"

definition sinkFile ::
  "options \<Rightarrow> world \<Rightarrow> string \<Rightarrow> string \<Rightarrow> FileTimes option \<Rightarrow> world \<times> error option" where
  "sinkFile opts w name line tms =
     (case sinkFile_open w name line of
        Inl r \<Rightarrow> r
      | Inr (w1, perm, sz, name, exists, st) \<Rightarrow>
          (case sinkFile_copy w1 name sz of
             Inl r \<Rightarrow> r
           | Inr (w2, pendErrs) \<Rightarrow>
               (case sinkFile_attrs opts w2 name perm sz exists st tms pendErrs of
                  (w3, pendErrs) \<Rightarrow> sinkFile_reply w3 pendErrs)))"

text \<open>
  What \<open>sinkDir\<close> does once the nested \<open>sink\<close> has returned: the tms, the permissions,
  the report of the errors of these two, and the errors it returns.
\<close>

definition sinkDir_finish ::
  "world \<Rightarrow> string \<Rightarrow> FileMode \<Rightarrow> FileTimes option \<Rightarrow> bool \<Rightarrow> error list
     \<Rightarrow> world \<times> error option" where
  "sinkDir_finish w name perm tms resetPerm errs =
     (case (case tms of
              None \<Rightarrow> (w, [])
            | Some t \<Rightarrow> pend [] (Utimes w name t)) of
        (w1, p1) \<Rightarrow>
          (case (if resetPerm then pend p1 (os_Chmod w1 name perm) else (w1, p1)) of
             (w2, pendErrs) \<Rightarrow>
               if pendErrs \<noteq> [] then
                 (case sendError w2 (AccError pendErrs) of
                    (w3, Some e) \<Rightarrow> (w3, Some e)
                  | (w3, None) \<Rightarrow> (w3, Some (AccError (errs @ pendErrs))))
               else (w2, if errs \<noteq> [] then Some (AccError errs) else None)))"

text \<open>
  The \<open>switch\<close> of the loop of \<open>sink\<close> for every prefix but \<open>D\<close>: the loop returns
  (\<open>Inl\<close>), or goes on with the new values of \<open>errs\<close> and \<open>times\<close> (\<open>Inr\<close>).
\<close>

definition sink_frame ::
  "options \<Rightarrow> world \<Rightarrow> string \<Rightarrow> bool \<Rightarrow> bool \<Rightarrow> error list \<Rightarrow> FileTimes option
     \<Rightarrow> char \<Rightarrow> string
     \<Rightarrow> (world \<times> error option) + (world \<times> error list \<times> FileTimes option)" where
  "sink_frame opts w path recur first errs tms prefix line =
     (if prefix = CHR 0x01 then
        Inr (w, errs @ [Plain line], tms)
      else if prefix = CHR 0x02 then
        Inl (w, Some (FatalError line))
      else if prefix = CHR ''E'' then
        (if \<not> recur then Inl (teeError w protocolErr)
         else (case put_zero w of
                 (w1, Some e) \<Rightarrow> Inl (w1, Some e)
               | (w1, None) \<Rightarrow> Inr (w1, errs, tms)))
      else if prefix = CHR ''T'' then
        (case Sscanf_dddd line of
           Inl e \<Rightarrow> Inl (teeError w (FatalError e))
         | Inr (k, m_sec, m_usec, a_sec, a_usec) \<Rightarrow>
             if k \<noteq> 4 then Inl (teeError w protocolErr)
             else (case put_zero w of
                     (w1, Some e) \<Rightarrow> Inl (w1, Some e)
                   | (w1, None) \<Rightarrow>
                       Inr (w1, errs,
                            Some \<lparr>Atime = \<lparr>Sec = a_sec, Usec = a_usec\<rparr>,
                                  Mtime = \<lparr>Sec = m_sec, Usec = m_usec\<rparr>\<rparr>)))
      else if prefix = CHR ''C'' then
        (case sinkFile opts w path line tms of
           (w1, err) \<Rightarrow>
             if isFatal err then Inl (w1, err)
             else Inr (w1, case err of None \<Rightarrow> errs | Some e \<Rightarrow> errs @ [e], None))
      else
        Inl (teeError w (if first then FatalError (prefix # line) else protocolErr)))"

text \<open>
  What \<open>sinkDir\<close> does before the nested \<open>sink\<close>: it returns early (\<open>Inl\<close>), or goes on
  with the name of the directory, its permissions and \<open>resetPerm\<close>.
\<close>

definition sinkDir_enter ::
  "options \<Rightarrow> world \<Rightarrow> string \<Rightarrow> string
     \<Rightarrow> (world \<times> error option) + (world \<times> string \<times> FileMode \<times> bool)" where
  "sinkDir_enter opts w parent line =
     (if \<not> iamRecursive opts
      then Inl (teeError w (FatalError ''received directory without -r flag''))
      else (case parseSubj line of
              Inl err \<Rightarrow> Inl (teeError w (FatalError (Error err)))
            | Inr (perm, sz, subj) \<Rightarrow>
                (case prepareDir opts w (path_Join parent subj) perm of
                   (w1, resetPerm, Some err) \<Rightarrow> Inl (teeError w1 err)
                 | (w1, resetPerm, None) \<Rightarrow>
                     Inr (w1, path_Join parent subj, perm, resetPerm))))"

text \<open>What \<open>sink\<close> does before its loop: the check of \<open>-d\<close> and the first \<open>\x00\<close>.\<close>

definition sink_enter :: "options \<Rightarrow> world \<Rightarrow> string \<Rightarrow> world \<times> error option" where
  "sink_enter opts w path =
     (case (if targetDir opts then
              (case os_Stat w path of
                 (w1, Inl err) \<Rightarrow> teeError w1 (FatalError (oserr_msg err))
               | (w1, Inr st) \<Rightarrow>
                   if \<not> IsDir st
                   then teeError w1 (FatalError (path @ '': is not a directory''))
                   else (w1, None))
            else (w, None)) of
        (w1, Some err) \<Rightarrow> (w1, Some err)
      | (w1, None) \<Rightarrow> put_zero w1)"

text \<open>
  \<open>sink\<close> and \<open>sinkDir\<close> call each other, and the loop of \<open>sink\<close> runs as long as frames
  arrive: the first argument bounds the iterations of a loop and the depth of the calls,
  and \<open>None\<close> is the result of a run that needs more. \<open>sink_loop\<close> is the loop of \<open>sink\<close>,
  with its variables \<open>first\<close>, \<open>errs\<close> and \<open>times\<close> (here \<open>tms\<close>).
\<close>

function sink :: "nat \<Rightarrow> options \<Rightarrow> world \<Rightarrow> string \<Rightarrow> bool \<Rightarrow> (world \<times> error option) option"
  and sink_loop :: "nat \<Rightarrow> options \<Rightarrow> world \<Rightarrow> string \<Rightarrow> bool \<Rightarrow> bool \<Rightarrow> error list
     \<Rightarrow> FileTimes option \<Rightarrow> (world \<times> error option) option"
  and sinkDir :: "nat \<Rightarrow> options \<Rightarrow> world \<Rightarrow> string \<Rightarrow> string \<Rightarrow> FileTimes option
     \<Rightarrow> (world \<times> error option) option"
where
  "sink n opts w path recur =
     (case sink_enter opts w path of
        (w1, Some err) \<Rightarrow> Some (w1, Some err)
      | (w1, None) \<Rightarrow> sink_loop n opts w1 path recur True [] None)"
| "sink_loop 0 opts w path recur first errs tms = None"
| "sink_loop (Suc n) opts w path recur first errs tms =
     (case read_byte w of
        (w1, REOF) \<Rightarrow> Some (w1, if errs \<noteq> [] then Some (AccError errs) else None)
      | (w1, RErr e) \<Rightarrow> Some (w1, Some (FatalError e))
      | (w1, RByte prefix) \<Rightarrow>
          (case readLine w1 of
             (w2, Inl e) \<Rightarrow> Some (w2, Some (FatalError e))
           | (w2, Inr line) \<Rightarrow>
               if prefix = CHR ''D'' then
                 (case sinkDir n opts w2 path line tms of
                    None \<Rightarrow> None
                  | Some (w3, err) \<Rightarrow>
                      if isFatal err then Some (w3, err)
                      else sink_loop n opts w3 path recur False
                             (case err of None \<Rightarrow> errs | Some e \<Rightarrow> errs @ [e]) None)
               else
                 (case sink_frame opts w2 path recur first errs tms prefix line of
                    Inl r \<Rightarrow> Some r
                  | Inr (w3, errs', tms') \<Rightarrow>
                      sink_loop n opts w3 path recur False errs' tms')))"
| "sinkDir n opts w parent line tms =
     (case sinkDir_enter opts w parent line of
        Inl r \<Rightarrow> Some r
      | Inr (w1, name, perm, resetPerm) \<Rightarrow>
          (case sink n opts w1 name True of
             None \<Rightarrow> None
           | Some (w2, err) \<Rightarrow>
               if isFatal err then Some (w2, err)
               else Some (sinkDir_finish w2 name perm tms resetPerm
                            (case err of None \<Rightarrow> [] | Some e \<Rightarrow> [e]))))"
  by pat_completeness auto
termination
  by (relation "measure (\<lambda>c. case c of
                    Inl (n, opts, w, path, recur) \<Rightarrow> 3 * n + 1
                  | Inr (Inl (n, opts, w, path, recur, first, errs, tms)) \<Rightarrow> 3 * n
                  | Inr (Inr (n, opts, w, parent, line, tms)) \<Rightarrow> 3 * n + 2)")
    auto

declare sink.simps [simp del] sink_loop.simps [simp del] sinkDir.simps [simp del]

section \<open>Source\<close>

text \<open>The verbs of \<open>fmt.Fprintf\<close> the program uses: \<open>%d\<close> and \<open>%04o\<close>.\<close>

function fmt_nat :: "nat \<Rightarrow> nat \<Rightarrow> string" where
  "fmt_nat base n =
     (if n < base \<or> base < 2 then [char_of (48 + n)]
      else fmt_nat base (n div base) @ [char_of (48 + n mod base)])"
  by pat_completeness auto
termination
  by (relation "measure (\<lambda>(base, n). n)") auto

definition fmt_d :: "int \<Rightarrow> string" where
  "fmt_d i = (if i < 0 then CHR ''-'' # fmt_nat 10 (nat (- i)) else fmt_nat 10 (nat i))"

definition fmt_04o :: "gint \<Rightarrow> string" where
  "fmt_04o x = (let s = fmt_nat 8 (unat x) in replicate (4 - length s) (CHR ''0'') @ s)"

text \<open>
  \<open>io.Copy(opts.out, f)\<close>: the bytes of the file that can be read are written to
  \<open>opts.out\<close>; the copy fails with the error of the write, or with the read error after
  the bytes before it have been written. The result is the count of bytes written and the
  error.
\<close>

definition copy_from_file :: "world \<Rightarrow> string \<Rightarrow> world \<times> int \<times> string option" where
  "copy_from_file w name =
     (let content = (case lookup w name of None \<Rightarrow> [] | Some n \<Rightarrow> ndata n);
          readable = (case fread_ok w of None \<Rightarrow> content | Some k \<Rightarrow> take k content)
      in case write_out w readable of
           (w1, Some e) \<Rightarrow> (w1, int (length (outp w1) - length (outp w)), Some e)
         | (w1, None) \<Rightarrow>
             (w1, int (length readable),
              if length readable < length content then Some EIO else None))"

text \<open>The names in a directory: the paths of the file system one element below it.\<close>

definition children :: "(string \<times> node) list \<Rightarrow> string \<Rightarrow> string list" where
  "children al dir =
     map (\<lambda>(p, n). base_name p)
       (filter (\<lambda>(p, n). CHR ''/'' \<notin> set (base_name p) \<and> base_name p \<noteq> ''.''
                   \<and> base_name p \<noteq> ''..'' \<and> p \<noteq> path_Clean dir
                   \<and> path_Join dir (base_name p) = p) al)"

definition Readdir :: "world \<Rightarrow> string \<Rightarrow> world \<times> (string + string list)" where
  "Readdir w dir =
     (logop w OpReaddir dir,
      case deny w OpReaddir dir of
        Some e \<Rightarrow> Inl e
      | None \<Rightarrow> Inr (children (fs w) dir))"

definition sendAttr :: "world \<Rightarrow> node \<Rightarrow> world \<times> error option" where
  "sendAttr w st =
     (case write_out w (''T'' @ fmt_d (Sec (Mtime (ntimes st))) @ '' 0 ''
                          @ fmt_d (Sec (Atime (ntimes st))) @ '' 0'' @ [CHR 0x0A]) of
        (w1, Some e) \<Rightarrow> (w1, Some (FatalError e))
      | (w1, None) \<Rightarrow> ack w1)"

text \<open>
  \<open>send\<close> for a regular file, in two parts: the header (the times, the \<open>C\<close> line and its
  acknowledgement), then the payload.
\<close>

definition send_header :: "options \<Rightarrow> world \<Rightarrow> string \<Rightarrow> node \<Rightarrow> world \<times> error option" where
  "send_header opts w name st =
     (case (if preserveAttrs opts then sendAttr w st else (w, None)) of
        (w1, Some err) \<Rightarrow> (w1, Some err)
      | (w1, None) \<Rightarrow>
          (case write_out w1 (''C'' @ fmt_04o (toPosixPerm (nperm st)) @ '' ''
                                @ fmt_d (int (length (ndata st))) @ '' '' @ base_name name
                                @ [CHR 0x0A]) of
             (w2, Some e) \<Rightarrow> (w2, Some (FatalError e))
           | (w2, None) \<Rightarrow> ack w2))"

definition send_payload :: "world \<Rightarrow> string \<Rightarrow> node \<Rightarrow> world \<times> error option" where
  "send_payload w name st =
     (case copy_from_file w name of
        (w1, sent, Some err) \<Rightarrow>
          (case write_out w1 (replicate (nat (int (length (ndata st)) - sent)) (CHR 0x00)) of
             (w2, Some e) \<Rightarrow> (w2, Some (FatalError e))
           | (w2, None) \<Rightarrow>
               (case ack w2 of
                  (w3, Some a) \<Rightarrow> (w3, Some a)
                | (w3, None) \<Rightarrow> teeError w3 (Plain err)))
      | (w1, sent, None) \<Rightarrow>
          (case put_zero w1 of
             (w2, Some e) \<Rightarrow> (w2, Some e)
           | (w2, None) \<Rightarrow> ack w2))"

text \<open>What \<open>sendDir\<close> does after the last child: the \<open>E\<close> line and its acknowledgement.\<close>

definition sendDir_finish :: "world \<Rightarrow> error list \<Rightarrow> world \<times> error option" where
  "sendDir_finish w sendErrs =
     (case write_out w (''E'' @ [CHR 0x0A]) of
        (w1, Some e) \<Rightarrow> (w1, Some (FatalError e))
      | (w1, None) \<Rightarrow>
          (case ack w1 of
             (w2, ackErr) \<Rightarrow>
               if isFatal ackErr then (w2, ackErr)
               else if sendErrs \<noteq> [] then (w2, Some (AccError sendErrs))
               else (w2, ackErr)))"

text \<open>
  \<open>send\<close> and \<open>sendDir\<close> call each other; the first argument bounds the depth of the
  directories. \<open>sendChildren\<close> is the loop of \<open>sendDir\<close> over the names \<open>Readdir\<close> returns
  (all of them in one batch): it ends with the fatal error or with the errors it collected.
\<close>

function send :: "nat \<Rightarrow> options \<Rightarrow> world \<Rightarrow> string \<Rightarrow> (world \<times> error option) option"
  and sendDir :: "nat \<Rightarrow> options \<Rightarrow> world \<Rightarrow> string \<Rightarrow> node \<Rightarrow> (world \<times> error option) option"
  and sendChildren :: "nat \<Rightarrow> options \<Rightarrow> world \<Rightarrow> string \<Rightarrow> string list \<Rightarrow> error list
     \<Rightarrow> (world \<times> (error + error list)) option"
where
  "send n opts w name =
     (case os_Open w name of
        (w1, Some e) \<Rightarrow> Some (teeError w1 (Plain e))
      | (w1, None) \<Rightarrow>
          (case f_Stat w1 name of
             (w2, Inl e) \<Rightarrow> Some (teeError w2 (Plain e))
           | (w2, Inr st) \<Rightarrow>
               if IsDir st then
                 (if iamRecursive opts then sendDir n opts w2 name st
                  else Some (teeError w2 (Plain (base_name name @ '': is a directory''))))
               else if \<not> IsRegular st then
                 Some (teeError w2 (Plain (base_name name @ '': not a regular file'')))
               else (case send_header opts w2 name st of
                       (w3, Some err) \<Rightarrow> Some (w3, Some err)
                     | (w3, None) \<Rightarrow> Some (send_payload w3 name st))))"
| "sendDir 0 opts w dir st = None"
| "sendDir (Suc n) opts w dir st =
     (case (if preserveAttrs opts then sendAttr w st else (w, None)) of
        (w1, Some err) \<Rightarrow> Some (w1, Some err)
      | (w1, None) \<Rightarrow>
          (case write_out w1 (''D'' @ fmt_04o (toPosixPerm (nperm st)) @ '' 0 ''
                                @ base_name dir @ [CHR 0x0A]) of
             (w2, Some e) \<Rightarrow> Some (w2, Some (FatalError e))
           | (w2, None) \<Rightarrow>
               (case ack w2 of
                  (w3, Some a) \<Rightarrow> Some (w3, Some a)
                | (w3, None) \<Rightarrow>
                    (case Readdir w3 dir of
                       (w4, Inl e) \<Rightarrow> Some (teeError w4 (Plain e))
                     | (w4, Inr names) \<Rightarrow>
                         (case sendChildren n opts w4 dir names [] of
                            None \<Rightarrow> None
                          | Some (w5, Inl err) \<Rightarrow> Some (w5, Some err)
                          | Some (w5, Inr sendErrs) \<Rightarrow> Some (sendDir_finish w5 sendErrs))))))"
| "sendChildren n opts w dir [] sendErrs = Some (w, Inr sendErrs)"
| "sendChildren n opts w dir (child # rest) sendErrs =
     (case send n opts w (path_Join dir child) of
        None \<Rightarrow> None
      | Some (w1, None) \<Rightarrow> sendChildren n opts w1 dir rest sendErrs
      | Some (w1, Some err) \<Rightarrow>
          if isFatal (Some err) then Some (w1, Inl err)
          else sendChildren n opts w1 dir rest (sendErrs @ [err]))"
  by pat_completeness auto
termination
  by (relation "inv_image (less_than <*lex*> less_than) (\<lambda>c. case c of
                    Inl (n, opts, w, name) \<Rightarrow> (n, 1)
                  | Inr (Inl (n, opts, w, dir, st)) \<Rightarrow> (n, 0)
                  | Inr (Inr (n, opts, w, dir, names, sendErrs)) \<Rightarrow> (n, 2 + length names))")
    auto

declare send.simps [simp del] sendDir.simps [simp del] sendChildren.simps [simp del]

section \<open>Concrete environments\<close>

text \<open>
  A directory \<open>t\<close>, streams that never fail, no input yet, umask \<open>022\<close>; and the options
  of a recursive sink.
\<close>

definition world0 :: world where
  "world0 =
     \<lparr>inp = [], inp_err = None, chunk = 0, outp = [], out_room = None,
      fs = [(''t'', \<lparr>nkind = Directory, nperm = 0x1ED, ndata = [],
                     ntimes = \<lparr>Atime = \<lparr>Sec = 0, Usec = 0\<rparr>,
                               Mtime = \<lparr>Sec = 0, Usec = 0\<rparr>\<rparr>\<rparr>)],
      denied = [], disk_room = None, fread_ok = None, umask = 0x12,
      now = \<lparr>Atime = \<lparr>Sec = 99, Usec = 0\<rparr>, Mtime = \<lparr>Sec = 99, Usec = 0\<rparr>\<rparr>,
      oslog = []\<rparr>"

definition opts_r :: options where
  "opts_r = \<lparr>iamRecursive = True, targetDir = False, preserveAttrs = False\<rparr>"

text \<open>The frames of the examples.\<close>

definition frame :: "string \<Rightarrow> string" where
  "frame l = l @ [CHR 0x0A]"

definition soft_frame :: "string \<Rightarrow> string" where
  "soft_frame msg = CHR 0x01 # msg @ [CHR 0x0A]"

text \<open>What the examples look at in the result of a run.\<close>

definition node_at :: "(world \<times> error option) option \<Rightarrow> string \<Rightarrow> node option" where
  "node_at r p = (case r of None \<Rightarrow> None | Some (w, e) \<Rightarrow> lookup w p)"

definition paths_of :: "(world \<times> error option) option \<Rightarrow> string list" where
  "paths_of r = (case r of None \<Rightarrow> [] | Some (w, e) \<Rightarrow> map fst (fs w))"

definition error_of :: "(world \<times> error option) option \<Rightarrow> error option" where
  "error_of r = (case r of None \<Rightarrow> None | Some (w, e) \<Rightarrow> e)"

definition log_of :: "(world \<times> error option) option \<Rightarrow> (fsop \<times> string) list" where
  "log_of r = (case r of None \<Rightarrow> [] | Some (w, e) \<Rightarrow> oslog w)"

text \<open>A step that touches nothing but \<open>opts.out\<close>.\<close>

definition out_only :: "world \<Rightarrow> world \<Rightarrow> bool" where
  "out_only w w' = (\<exists>ob r. w' = w\<lparr>outp := ob, out_room := r\<rparr>)"

text \<open>The inputs of the examples.\<close>

definition world_fatal :: world where
  "world_fatal = world0\<lparr>inp := CHR 0x02 # ''boom'' @ CHR 0x0A # ''C0644 1 f''\<rparr>"

definition world_bad_name :: world where
  "world_bad_name = world0\<lparr>inp := CHR ''C'' # ''0644 3 a/b'' @ CHR 0x0A # ''xyz''\<rparr>"

definition world_dotdot :: world where
  "world_dotdot =
     world0\<lparr>inp := CHR ''D'' # (''0755 0 ..'' @ [CHR 0xC2, CHR 0xA0] @ ''x'') @ CHR 0x0A # ''E''\<rparr>"

definition world_times :: world where
  "world_times =
     world0\<lparr>inp := CHR ''T'' # ''1000 0 5 0'' @ CHR 0x0A # concat (map soft_frame [''oops''])
                    @ CHR ''C'' # ''0644 1 f'' @ CHR 0x0A # ''x'' @ [CHR 0x00]\<rparr>"

definition world_end :: world where
  "world_end =
     world0\<lparr>inp := frame ''D0755 0 d'' @ frame ''E'' @ frame ''C0444 1 f'' @ ''x'' @ [CHR 0x00]\<rparr>"

text \<open>The length of the file at a path.\<close>

definition data_len :: "world \<Rightarrow> string \<Rightarrow> nat option" where
  "data_len w p = map_option (\<lambda>n. length (ndata n)) (lookup w p)"

text \<open>
  A file \<open>t/f\<close> of ten bytes that receives three, and the environment after the header
  and after the payload.
\<close>

definition old_file :: node where
  "old_file = \<lparr>nkind = Regular, nperm = 0x1A4, ndata = ''0123456789'', ntimes = now world0\<rparr>"

definition world_trunc :: world where
  "world_trunc = world0\<lparr>inp := ''abc'' @ [CHR 0x00], fs := fs world0 @ [(''t/f'', old_file)]\<rparr>"

definition world_trunc_open :: world where
  "world_trunc_open =
     world_trunc\<lparr>outp := [CHR 0x00],
                  oslog := [(OpStat, ''t''), (OpOpenFile, ''t/f''), (OpFStat, ''t/f'')]\<rparr>"

definition world_trunc_copied :: world where
  "world_trunc_copied =
     world_trunc_open\<lparr>inp := [CHR 0x00],
                       fs := fs world0 @ [(''t/f'', old_file\<lparr>ndata := ''abc3456789''\<rparr>)]\<rparr>"





text \<open>
  A file of five bytes whose reads fail after two, and the environments \<open>send\<close> goes
  through.
\<close>

definition src_file :: node where
  "src_file = \<lparr>nkind = Regular, nperm = 0x1A4, ndata = ''hello'', ntimes = now world0\<rparr>"

definition world_send :: world where
  "world_send = world0\<lparr>inp := [CHR 0x00, CHR 0x00, CHR ''D''], fs := [(''src.txt'', src_file)],
                       fread_ok := Some 2\<rparr>"

definition world_send_open :: world where
  "world_send_open = world_send\<lparr>oslog := [(OpOpen, ''src.txt'')]\<rparr>"

definition world_send_stat :: world where
  "world_send_stat = world_send\<lparr>oslog := [(OpOpen, ''src.txt''), (OpFStat, ''src.txt'')]\<rparr>"

definition world_send_header :: world where
  "world_send_header = world_send_stat\<lparr>inp := [CHR 0x00, CHR ''D''], outp := frame ''C0644 5 src.txt''\<rparr>"

definition world_send_copied :: world where
  "world_send_copied = world_send_header\<lparr>outp := frame ''C0644 5 src.txt'' @ ''he''\<rparr>"

definition world_send_padded :: world where
  "world_send_padded =
     world_send_header\<lparr>outp := frame ''C0644 5 src.txt'' @ ''he'' @ [CHR 0x00, CHR 0x00, CHR 0x00]\<rparr>"

definition world_send_acked :: world where
  "world_send_acked = world_send_padded\<lparr>inp := [CHR ''D'']\<rparr>"

text \<open>A file of one byte for the directory \<open>t\<close>.\<close>

definition world_chmod :: world where
  "world_chmod = world0\<lparr>inp := ''x'' @ [CHR 0x00]\<rparr>"

section \<open>Mode translation\<close>

lemma and_pow2_ne0: "(x AND (2 ^ n :: 'a::len word) \<noteq> 0) = bit x n"
  by (simp add: and_exp_eq_0_iff_not_bit)

lemma bit_or_pow2:
  "bit (a OR (2 ^ k :: 'a::len word)) n = (bit a n \<or> (n = k \<and> k < LENGTH('a)))"
  by (auto simp add: bit_simps)

lemma bit_and_mask: "bit (a AND (mask k :: 'a::len word)) n = (bit a n \<and> n < k)"
  by (auto simp add: bit_simps dest: bit_imp_le_length)

lemma test_bit_11: "(x AND (0x800 :: 'a::len word) \<noteq> 0) = bit x 11"
  using and_pow2_ne0 [of x 11] by simp

lemma test_bit_10: "(x AND (0x400 :: 'a::len word) \<noteq> 0) = bit x 10"
  using and_pow2_ne0 [of x 10] by simp

lemma test_bit_23: "(x AND (0x800000 :: 'a::len word) \<noteq> 0) = bit x 23"
  using and_pow2_ne0 [of x 23] by simp

lemma test_bit_22: "(x AND (0x400000 :: 'a::len word) \<noteq> 0) = bit x 22"
  using and_pow2_ne0 [of x 22] by simp

lemma bit_or_setuid: "bit (a OR (0x800000 :: 32 word)) n = (bit a n \<or> n = 23)"
  using bit_or_pow2 [of a 23 n] by simp

lemma bit_or_setgid: "bit (a OR (0x400000 :: 32 word)) n = (bit a n \<or> n = 22)"
  using bit_or_pow2 [of a 22 n] by simp

lemma bit_or_isuid: "bit (a OR (0x800 :: 'a::len word)) n = (bit a n \<or> (n = 11 \<and> 11 < LENGTH('a)))"
  using bit_or_pow2 [of a 11 n] by simp

lemma bit_or_isgid: "bit (a OR (0x400 :: 'a::len word)) n = (bit a n \<or> (n = 10 \<and> 10 < LENGTH('a)))"
  using bit_or_pow2 [of a 10 n] by simp

lemma bit_and_0777: "bit (a AND (0x1FF :: 'a::len word)) n = (bit a n \<and> n < 9)"
  using bit_and_mask [of a 9 n] by (simp add: mask_eq_exp_minus_1)

lemma bit_toStdPerm:
  "bit (toStdPerm x) n = ((n < 9 \<and> bit x n) \<or> (n = 23 \<and> bit x 11) \<or> (n = 22 \<and> bit x 10))"
  unfolding toStdPerm_def Let_def ModePerm_def ModeSetuid_def ModeSetgid_def
    S_ISUID_def S_ISGID_def test_bit_11 test_bit_10
  by (auto simp add: bit_or_setuid bit_or_setgid bit_and_0777 bit_ucast_iff)

lemma bit_toPosixPerm:
  "bit (toPosixPerm m) n = ((n < 9 \<and> bit m n) \<or> (n = 11 \<and> bit m 23) \<or> (n = 10 \<and> bit m 22))"
  unfolding toPosixPerm_def Let_def ModePerm_def ModeSetuid_def ModeSetgid_def
    S_ISUID_def S_ISGID_def test_bit_23 test_bit_22
  by (auto simp add: bit_or_isuid bit_or_isgid bit_and_0777 bit_ucast_iff)

lemma bit_mask_or_pow2:
  "bit ((mask k OR 2 ^ a) OR 2 ^ b :: 'a::len word) n
     = ((n < k \<and> n < LENGTH('a)) \<or> (n = a \<and> a < LENGTH('a)) \<or> (n = b \<and> b < LENGTH('a)))"
  by (auto simp add: bit_simps)

lemma bit_posix_permitted: "bit posix_permitted n = (n < 9 \<or> n = 10 \<or> n = 11)"
proof -
  have "posix_permitted = (mask 9 OR 2 ^ 11) OR 2 ^ 10"
    by (simp add: posix_permitted_def S_ISUID_def S_ISGID_def mask_eq_exp_minus_1)
  then have "bit posix_permitted n = bit ((mask 9 OR 2 ^ 11) OR 2 ^ 10 :: gint) n"
    by (rule arg_cong)
  also have "\<dots> = (n < 9 \<or> n = 10 \<or> n = 11)"
    unfolding bit_mask_or_pow2 by auto
  finally show ?thesis .
qed

lemma bit_std_permitted: "bit std_permitted n = (n < 9 \<or> n = 22 \<or> n = 23)"
proof -
  have "std_permitted = (mask 9 OR 2 ^ 23) OR 2 ^ 22"
    by (simp add: std_permitted_def ModePerm_def ModeSetuid_def ModeSetgid_def
        mask_eq_exp_minus_1)
  then have "bit std_permitted n = bit ((mask 9 OR 2 ^ 23) OR 2 ^ 22 :: FileMode) n"
    by (rule arg_cong)
  also have "\<dots> = (n < 9 \<or> n = 22 \<or> n = 23)"
    unfolding bit_mask_or_pow2 by auto
  finally show ?thesis .
qed

text \<open>
  C9. For every POSIX mode \<open>x\<close> made of the permitted bits only (\<open>0777\<close>, setuid, setgid),
  \<open>toPosixPerm (toStdPerm x) = x\<close>; and whatever the argument, \<open>toStdPerm\<close> returns only
  the nine permission bits, \<open>ModeSetuid\<close> and \<open>ModeSetgid\<close>, and \<open>toPosixPerm\<close> only the
  permitted bits.
\<close>

theorem mode_roundtrip:
  "(x AND NOT posix_permitted = 0 \<longrightarrow> toPosixPerm (toStdPerm x) = x)
   \<and> toStdPerm y AND NOT std_permitted = 0
   \<and> toPosixPerm m AND NOT posix_permitted = 0"
proof (intro conjI impI)
  assume a: "x AND NOT posix_permitted = 0"
  show "toPosixPerm (toStdPerm x) = x"
  proof (rule bit_word_eqI)
    fix n assume n: "n < LENGTH(64)"
    have "\<not> bit (x AND NOT posix_permitted) n" using a by simp
    then have "bit x n \<Longrightarrow> n < 9 \<or> n = 10 \<or> n = 11"
      using n by (simp add: bit_simps bit_posix_permitted)
    then show "bit (toPosixPerm (toStdPerm x)) n = bit x n"
      using n by (auto simp add: bit_toPosixPerm bit_toStdPerm)
  qed
next
  show "toStdPerm y AND NOT std_permitted = 0"
    by (rule bit_word_eqI) (auto simp add: bit_simps bit_toStdPerm bit_std_permitted)
next
  show "toPosixPerm m AND NOT posix_permitted = 0"
    by (rule bit_word_eqI) (auto simp add: bit_simps bit_toPosixPerm bit_posix_permitted)
qed

theorem mode_roundtrip_witness:
  "(0xDED :: gint) AND NOT posix_permitted = 0 \<and> toPosixPerm (toStdPerm 0xDED) = 0xDED"
proof -
  have h: "(0xDED :: gint) AND NOT posix_permitted = 0"
    by (simp add: posix_permitted_def S_ISUID_def S_ISGID_def)
  from mode_roundtrip [of "0xDED"] h show ?thesis by blast
qed

section \<open>Error lines\<close>

lemma replace_nl_concat:
  "replace_nl s = concat (map (\<lambda>c. if c = CHR 0x0A then ''; '' else [c]) s)"
  by (induction s) auto

lemma replace_nl_no_newline: "CHR 0x0A \<notin> set (replace_nl s)"
  by (induction s) auto

lemma errLine_no_newline: "CHR 0x0A \<notin> set (errLine s)"
  using replace_nl_no_newline [of s]
  by (auto simp add: errLine_def Let_def dest: in_set_takeD)

lemma errLine_length: "length (errLine s) \<le> MaxErrLen - 3"
  by (simp add: errLine_def Let_def MaxErrLen_def)

lemma write_out_ok: "write_out w s = (w', None) \<Longrightarrow> outp w' = outp w @ s"
  by (auto simp add: write_out_def split: option.splits if_splits)

lemma sendError_ok:
  "snd (sendError w err) = None \<Longrightarrow>
     outp (fst (sendError w err)) = outp w @ [CHR 0x01] @ errLine (Error err) @ [CHR 0x0A]"
  by (auto simp add: sendError_def split: prod.splits option.splits dest: write_out_ok)

text \<open>
  C8. Whenever \<open>sendError\<close> gets its line written, the line is \<open>\x01\<close>, a body and a
  newline. The body has no newline; with a \<open>\x00\<close> after it the line is at most 1024 bytes
  long; and the body is the message with each newline replaced by \<open>; \<close> if that is at most
  1021 bytes long, its first 1018 bytes followed by \<open>...\<close> otherwise.
\<close>

theorem sendError_line:
  assumes "snd (sendError w err) = None"
  shows "\<exists>body. outp (fst (sendError w err)) = outp w @ [CHR 0x01] @ body @ [CHR 0x0A]
           \<and> CHR 0x0A \<notin> set body
           \<and> length ([CHR 0x01] @ body @ [CHR 0x0A] @ [CHR 0x00]) \<le> 1024
           \<and> (let flat = concat (map (\<lambda>c. if c = CHR 0x0A then ''; '' else [c]) (Error err))
              in if length flat \<le> 1021 then body = flat
                 else body = take 1018 flat @ ''...'')"
proof (intro exI conjI)
  show "outp (fst (sendError w err)) = outp w @ [CHR 0x01] @ errLine (Error err) @ [CHR 0x0A]"
    using assms by (rule sendError_ok)
  show "CHR 0x0A \<notin> set (errLine (Error err))"
    by (rule errLine_no_newline)
  show "length ([CHR 0x01] @ errLine (Error err) @ [CHR 0x0A] @ [CHR 0x00]) \<le> 1024"
    using errLine_length [of "Error err"] by (simp add: MaxErrLen_def)
  show "let flat = concat (map (\<lambda>c. if c = CHR 0x0A then ''; '' else [c]) (Error err))
        in if length flat \<le> 1021 then errLine (Error err) = flat
           else errLine (Error err) = take 1018 flat @ ''...''"
    by (simp add: errLine_def Let_def MaxErrLen_def replace_nl_concat [symmetric] not_le)
qed

theorem sendError_line_witness:
  "snd (sendError world0 (FatalError (replicate 600 (CHR 0x0A)))) = None
   \<and> (\<exists>body. outp (fst (sendError world0 (FatalError (replicate 600 (CHR 0x0A)))))
                = outp world0 @ [CHR 0x01] @ body @ [CHR 0x0A]
           \<and> CHR 0x0A \<notin> set body
           \<and> length ([CHR 0x01] @ body @ [CHR 0x0A] @ [CHR 0x00]) \<le> 1024
           \<and> (let flat = concat (map (\<lambda>c. if c = CHR 0x0A then ''; '' else [c])
                                    (Error (FatalError (replicate 600 (CHR 0x0A)))))
              in if length flat \<le> 1021 then body = flat
                 else body = take 1018 flat @ ''...''))"
proof -
  have h: "snd (sendError world0 (FatalError (replicate 600 (CHR 0x0A)))) = None"
    by (simp add: sendError_def write_out_def world0_def)
  show ?thesis using h sendError_line [OF h] by (rule conjI)
qed

section \<open>Scanning\<close>

text \<open>
  A no-break space (\<open>U+00A0\<close>, the bytes \<open>C2 A0\<close>) ends a name; the operands of a line
  are separated by white space; a line that ends early is \<open>io.EOF\<close>.
\<close>

lemma Sscanf_ods_nbsp:
  "Sscanf_ods (''0644 1 a'' @ [CHR 0xC2, CHR 0xA0] @ ''/b'') = Inr (3, 420, 1, ''a'')"
  by code_simp

lemma Sscanf_ods_dotdot_nbsp:
  "Sscanf_ods (''0755 0 ..'' @ [CHR 0xC2, CHR 0xA0] @ ''x'') = Inr (3, 493, 0, ''..'')"
  by code_simp

lemma Sscanf_ods_no_space:
  "Sscanf_ods ''0689 1 f'' = Inl ''expected space in input to match format''"
  by code_simp

lemma Sscanf_dddd_no_space:
  "Sscanf_dddd ''1-2 3 4'' = Inl ''expected space in input to match format''"
  by code_simp

lemma Sscanf_dddd_short: "Sscanf_dddd ''1000 0 5'' = Inl ''EOF''"
  by code_simp

section \<open>Reading frames\<close>

lemma read_byte_cons: "inp w = c # cs \<Longrightarrow> read_byte w = (w\<lparr>inp := cs\<rparr>, RByte c)"
  by (simp add: read_byte_def)

lemma readLine_loop_line:
  "CHR 0x0A \<notin> set l \<Longrightarrow> readLine_loop acc (l @ CHR 0x0A # rest) = Some (acc @ l, rest)"
  by (induction l arbitrary: acc) auto

lemma readLine_line:
  "inp w = l @ CHR 0x0A # rest \<Longrightarrow> CHR 0x0A \<notin> set l \<Longrightarrow> readLine w = (w\<lparr>inp := rest\<rparr>, Inr l)"
  by (simp add: readLine_def readLine_loop_line)

lemma out_only_refl: "out_only w w"
  unfolding out_only_def by (rule exI [of _ "outp w"], rule exI [of _ "out_room w"]) simp

lemma out_only_trans: "out_only w w' \<Longrightarrow> out_only w' w'' \<Longrightarrow> out_only w w''"
  unfolding out_only_def by (elim exE) (simp, blast)

lemma out_only_fields:
  assumes "out_only w w'"
  shows "fs w' = fs w" "oslog w' = oslog w" "inp w' = inp w" "inp_err w' = inp_err w"
    "deny w' = deny w" "lookup w' p = lookup w p" "disk_room w' = disk_room w"
    "chunk w' = chunk w" "fread_ok w' = fread_ok w" "umask w' = umask w" "now w' = now w"
  using assms unfolding out_only_def lookup_def deny_def by auto

lemma write_out_only: "out_only w (fst (write_out w s))"
proof (cases "out_room w")
  case None
  then have "fst (write_out w s) = w\<lparr>outp := outp w @ s, out_room := out_room w\<rparr>"
    by (simp add: write_out_def)
  then show ?thesis unfolding out_only_def by blast
next
  case (Some r)
  then show ?thesis unfolding out_only_def by (auto simp add: write_out_def)
qed

lemma sendError_only: "out_only w (fst (sendError w e))"
  using write_out_only [of w "[CHR 0x01] @ errLine (Error e) @ [CHR 0x0A]"]
  by (auto simp add: sendError_def split: prod.splits option.splits)

lemma teeError_only: "out_only w (fst (teeError w e))"
  using sendError_only [of w e]
  by (auto simp add: teeError_def split: prod.splits option.splits)

lemma put_zero_only: "out_only w (fst (put_zero w))"
  using write_out_only [of w "[CHR 0x00]"]
  by (auto simp add: put_zero_def split: prod.splits option.splits)

lemma sendError_result: "snd (sendError w e) = None \<or> (\<exists>m. snd (sendError w e) = Some (FatalError m))"
  by (simp add: sendError_def split: prod.splits option.splits)

lemma teeError_fatal: "\<exists>m. snd (teeError w (FatalError x)) = Some (FatalError m)"
  using sendError_result [of w "FatalError x"]
  by (auto simp add: teeError_def split: prod.splits option.splits)

lemma parseSubj_bad_name:
  assumes "Sscanf_ods line = Inr (3, pperm, sz, name)" and "name = ''..'' \<or> CHR ''/'' \<in> set name"
  shows "parseSubj line = Inl (FatalError (name @ '': invalid name''))"
  using assms by (auto simp add: parseSubj_def)

lemma sinkFile_bad_header:
  "parseSubj line = Inl err \<Longrightarrow> sinkFile opts w name line tms = teeError w (FatalError (Error err))"
  by (simp add: sinkFile_def sinkFile_open_def)

lemma sinkDir_bad_header:
  "parseSubj line = Inl err \<Longrightarrow>
     \<exists>x. sinkDir n opts w parent line tms = Some (teeError w (FatalError x))"
  by (auto simp add: sinkDir_enter_def sinkDir.simps)

section \<open>The loop of sink\<close>

lemma sink_loop_frame:
  assumes "inp w = prefix # line @ CHR 0x0A # rest" and "CHR 0x0A \<notin> set line"
    and "prefix \<noteq> CHR ''D''"
  shows "sink_loop (Suc n) opts w path recur first errs tms =
           (case sink_frame opts (w\<lparr>inp := rest\<rparr>) path recur first errs tms prefix line of
              Inl r \<Rightarrow> Some r
            | Inr (w3, errs', tms') \<Rightarrow> sink_loop n opts w3 path recur False errs' tms')"
proof -
  have "readLine (w\<lparr>inp := line @ CHR 0x0A # rest\<rparr>) = (w\<lparr>inp := rest\<rparr>, Inr line)"
    using readLine_line [of "w\<lparr>inp := line @ CHR 0x0A # rest\<rparr>" line rest] assms(2) by simp
  then show ?thesis
    using assms by (simp add: read_byte_cons sink_loop.simps)
qed

lemma sink_loop_dir:
  assumes "inp w = CHR ''D'' # line @ CHR 0x0A # rest" and "CHR 0x0A \<notin> set line"
  shows "sink_loop (Suc n) opts w path recur first errs tms =
           (case sinkDir n opts (w\<lparr>inp := rest\<rparr>) path line tms of
              None \<Rightarrow> None
            | Some (w3, err) \<Rightarrow>
                if isFatal err then Some (w3, err)
                else sink_loop n opts w3 path recur False
                       (case err of None \<Rightarrow> errs | Some e \<Rightarrow> errs @ [e]) None)"
proof -
  have "readLine (w\<lparr>inp := line @ CHR 0x0A # rest\<rparr>) = (w\<lparr>inp := rest\<rparr>, Inr line)"
    using readLine_line [of "w\<lparr>inp := line @ CHR 0x0A # rest\<rparr>" line rest] assms(2) by simp
  then show ?thesis
    using assms by (simp add: read_byte_cons sink_loop.simps)
qed

lemma sink_loop_soft_frames:
  assumes "inp w = concat (map soft_frame msgs) @ rest" and "\<forall>m\<in>set msgs. CHR 0x0A \<notin> set m"
  shows "sink_loop (length msgs + n) opts w path recur first errs tms
           = sink_loop n opts (w\<lparr>inp := rest\<rparr>) path recur (first \<and> msgs = [])
               (errs @ map Plain msgs) tms"
  using assms
proof (induction msgs arbitrary: w first errs)
  case Nil
  then have "w\<lparr>inp := rest\<rparr> = w" by simp
  then show ?case by simp
next
  case (Cons m ms)
  have i: "inp w = CHR 0x01 # m @ CHR 0x0A # (concat (map soft_frame ms) @ rest)"
    using Cons.prems(1) by (simp add: soft_frame_def [of m])
  have nl: "CHR 0x0A \<notin> set m" using Cons.prems(2) by simp
  have "sink_loop (Suc (length ms + n)) opts w path recur first errs tms
          = sink_loop (length ms + n) opts (w\<lparr>inp := concat (map soft_frame ms) @ rest\<rparr>)
              path recur False (errs @ [Plain m]) tms"
    using sink_loop_frame [OF i nl, of "length ms + n" opts path recur first errs tms]
    by (simp add: sink_frame_def)
  also have "\<dots> = sink_loop n opts (w\<lparr>inp := rest\<rparr>) path recur (False \<and> ms = [])
                      ((errs @ [Plain m]) @ map Plain ms) tms"
    using Cons.IH [of "w\<lparr>inp := concat (map soft_frame ms) @ rest\<rparr>" False "errs @ [Plain m]"]
      Cons.prems(2) by simp
  finally show ?case by simp
qed

lemma errs_case:
  "(case err of None \<Rightarrow> xs | Some e \<Rightarrow> xs @ [e])
     = xs @ (case err of None \<Rightarrow> [] | Some e \<Rightarrow> [e])"
  by (cases err) simp_all

lemma put_zero_unbounded:
  "out_room w = None \<Longrightarrow> put_zero w = (w\<lparr>outp := outp w @ [CHR 0x00]\<rparr>, None)"
  by (simp add: put_zero_def write_out_def)

lemma sink_loop_times_frame:
  assumes "inp w = CHR ''T'' # tline @ CHR 0x0A # rest" and "CHR 0x0A \<notin> set tline"
    and "Sscanf_dddd tline = Inr (4, m_sec, m_usec, a_sec, a_usec)"
    and "out_room w = None"
  shows "sink_loop (Suc n) opts w path recur first errs tms
           = sink_loop n opts (w\<lparr>inp := rest, outp := outp w @ [CHR 0x00]\<rparr>) path recur False errs
               (Some \<lparr>Atime = \<lparr>Sec = a_sec, Usec = a_usec\<rparr>,
                      Mtime = \<lparr>Sec = m_sec, Usec = m_usec\<rparr>\<rparr>)"
proof -
  have "put_zero (w\<lparr>inp := rest\<rparr>) = (w\<lparr>inp := rest, outp := outp w @ [CHR 0x00]\<rparr>, None)"
    using put_zero_unbounded [of "w\<lparr>inp := rest\<rparr>"] assms(4) by simp
  then show ?thesis
    using sink_loop_frame [OF assms(1,2), of n opts path recur first errs tms] assms(3)
    by (simp add: sink_frame_def)
qed

text \<open>
  C10. When the loop of \<open>sink\<close> reads a \<open>\x02\<close> frame it returns \<open>FatalError\<close> of the line of
  that frame, whatever errors \<open>errs\<close> has collected before: none of them is in the result.
\<close>

theorem fatal_frame_only:
  assumes "inp w = CHR 0x02 # line @ CHR 0x0A # rest" and "CHR 0x0A \<notin> set line"
  shows "sink_loop (Suc n) opts w path recur first errs tms
           = Some (w\<lparr>inp := rest\<rparr>, Some (FatalError line))"
  using sink_loop_frame [OF assms, of n opts path recur first errs tms]
  by (simp add: sink_frame_def)

theorem fatal_frame_only_witness:
  "inp world_fatal = CHR 0x02 # ''boom'' @ CHR 0x0A # ''C0644 1 f''
   \<and> CHR 0x0A \<notin> set ''boom''
   \<and> sink_loop (Suc 0) opts_r world_fatal ''t'' False False [Plain ''earlier'', Plain ''errors''] None
       = Some (world_fatal\<lparr>inp := ''C0644 1 f''\<rparr>, Some (FatalError ''boom''))"
proof -
  have h1: "inp world_fatal = CHR 0x02 # ''boom'' @ CHR 0x0A # ''C0644 1 f''"
    by (simp add: world_fatal_def)
  have h2: "CHR 0x0A \<notin> set ''boom''" by simp
  show ?thesis
    using h1 h2 fatal_frame_only [OF h1 h2, of 0 opts_r "''t''" False False
        "[Plain ''earlier'', Plain ''errors'']" None]
    by blast
qed

text \<open>
  C5. When the loop of \<open>sink\<close> reads a \<open>C\<close> or \<open>D\<close> frame whose line \<open>Sscanf\<close> scans to
  a name that is \<open>..\<close> or contains a slash, \<open>sink\<close> returns a fatal error, the file system
  is as it was before the frame, and no call of the operating system has been made for
  it. The name is the one \<open>fmt\<close> reads: the runes up to the first white space of Unicode.
\<close>

theorem bad_name_is_fatal:
  assumes "inp w = prefix # line @ CHR 0x0A # rest" and "CHR 0x0A \<notin> set line"
    and "prefix = CHR ''C'' \<or> prefix = CHR ''D''"
    and "Sscanf_ods line = Inr (3, pperm, sz, name)"
    and "name = ''..'' \<or> CHR ''/'' \<in> set name"
  shows "\<exists>w' m. sink_loop (Suc n) opts w path recur first errs tms = Some (w', Some (FatalError m))
           \<and> fs w' = fs w \<and> oslog w' = oslog w"
proof -
  let ?w = "w\<lparr>inp := rest\<rparr>"
  have p: "parseSubj line = Inl (FatalError (name @ '': invalid name''))"
    using assms(4,5) by (rule parseSubj_bad_name)
  show ?thesis
  proof (cases "prefix = CHR ''C''")
    case True
    obtain m where m: "snd (teeError ?w (FatalError (name @ '': invalid name''))) = Some (FatalError m)"
      using teeError_fatal by blast
    have "sinkFile opts ?w path line tms = teeError ?w (FatalError (name @ '': invalid name''))"
      using sinkFile_bad_header [OF p] by simp
    then have "sink_loop (Suc n) opts w path recur first errs tms
                 = Some (fst (teeError ?w (FatalError (name @ '': invalid name''))), Some (FatalError m))"
      using sink_loop_frame [OF assms(1,2), of n opts path recur first errs tms] True m
      by (simp add: sink_frame_def split: prod.splits)
    then show ?thesis using out_only_fields [OF teeError_only] by simp
  next
    case False
    then have d: "prefix = CHR ''D''" using assms(3) by simp
    obtain x where x: "sinkDir n opts ?w path line tms = Some (teeError ?w (FatalError x))"
      using sinkDir_bad_header [OF p] by blast
    obtain m where m: "snd (teeError ?w (FatalError x)) = Some (FatalError m)"
      using teeError_fatal by blast
    have "sink_loop (Suc n) opts w path recur first errs tms
                 = Some (fst (teeError ?w (FatalError x)), Some (FatalError m))"
      using sink_loop_dir [OF assms(1) [unfolded d] assms(2), of n opts path recur first errs tms] x m
      by (simp split: prod.splits)
    then show ?thesis using out_only_fields [OF teeError_only] by simp
  qed
qed

theorem bad_name_is_fatal_witness:
  "inp world_bad_name = CHR ''C'' # ''0644 3 a/b'' @ CHR 0x0A # ''xyz''
   \<and> Sscanf_ods ''0644 3 a/b'' = Inr (3, 420, 3, ''a/b'')
   \<and> (\<exists>w' m. sink_loop (Suc 0) opts_r world_bad_name ''t'' False True [] None
                 = Some (w', Some (FatalError m))
          \<and> fs w' = fs world_bad_name \<and> oslog w' = oslog world_bad_name)
   \<and> inp world_dotdot
       = CHR ''D'' # (''0755 0 ..'' @ [CHR 0xC2, CHR 0xA0] @ ''x'') @ CHR 0x0A # ''E''
   \<and> Sscanf_ods (''0755 0 ..'' @ [CHR 0xC2, CHR 0xA0] @ ''x'') = Inr (3, 493, 0, ''..'')
   \<and> (\<exists>w' m. sink_loop (Suc 0) opts_r world_dotdot ''t'' False True [] None
                 = Some (w', Some (FatalError m))
          \<and> fs w' = fs world_dotdot \<and> oslog w' = oslog world_dotdot)"
proof -
  have h1: "inp world_bad_name = CHR ''C'' # ''0644 3 a/b'' @ CHR 0x0A # ''xyz''"
    by (simp add: world_bad_name_def)
  have h2: "CHR 0x0A \<notin> set ''0644 3 a/b''" by simp
  have h3: "CHR ''C'' = CHR ''C'' \<or> CHR ''C'' = CHR ''D''" by simp
  have h4: "Sscanf_ods ''0644 3 a/b'' = Inr (3, 420, 3, ''a/b'')" by code_simp
  have h5: "''a/b'' = ''..'' \<or> CHR ''/'' \<in> set ''a/b''" by simp
  have k1: "inp world_dotdot
              = CHR ''D'' # (''0755 0 ..'' @ [CHR 0xC2, CHR 0xA0] @ ''x'') @ CHR 0x0A # ''E''"
    by (simp add: world_dotdot_def)
  have k2: "CHR 0x0A \<notin> set (''0755 0 ..'' @ [CHR 0xC2, CHR 0xA0] @ ''x'')" by simp
  have k3: "CHR ''D'' = CHR ''C'' \<or> CHR ''D'' = CHR ''D''" by simp
  have k4: "Sscanf_ods (''0755 0 ..'' @ [CHR 0xC2, CHR 0xA0] @ ''x'') = Inr (3, 493, 0, ''..'')"
    by code_simp
  have k5: "''..'' = ''..'' \<or> CHR ''/'' \<in> set ''..''" by simp
  show ?thesis
    using h1 h4 k1 k4
      bad_name_is_fatal [OF h1 h2 h3 h4 h5, of 0 opts_r "''t''" False True "[]" None]
      bad_name_is_fatal [OF k1 k2 k3 k4 k5, of 0 opts_r "''t''" False True "[]" None]
    by blast
qed

text \<open>
  C2, as the code has it. The times of a \<open>T\<close> frame stay pending over the \<open>\x01\<close> frames
  that follow it: the next \<open>C\<close> or \<open>D\<close> frame of the loop is handled with them, and the loop
  goes on without pending times (and with the messages of the \<open>\x01\<close> frames among its
  errors).
\<close>

theorem pending_times_reach_next_file_or_dir:
  assumes "inp w = CHR ''T'' # tline @ CHR 0x0A # concat (map soft_frame msgs)
                     @ c # line @ CHR 0x0A # rest"
    and "CHR 0x0A \<notin> set tline" and "\<forall>m\<in>set msgs. CHR 0x0A \<notin> set m" and "CHR 0x0A \<notin> set line"
    and "Sscanf_dddd tline = Inr (4, m_sec, m_usec, a_sec, a_usec)"
    and "out_room w = None"
  shows "(c = CHR ''C'' \<longrightarrow>
           sink_loop (Suc (length msgs + Suc n)) opts w path recur first errs tms
             = (case sinkFile opts (w\<lparr>inp := rest, outp := outp w @ [CHR 0x00]\<rparr>) path line
                        (Some \<lparr>Atime = \<lparr>Sec = a_sec, Usec = a_usec\<rparr>,
                               Mtime = \<lparr>Sec = m_sec, Usec = m_usec\<rparr>\<rparr>) of
                  (w3, err) \<Rightarrow>
                    if isFatal err then Some (w3, err)
                    else sink_loop n opts w3 path recur False
                           (errs @ map Plain msgs @ (case err of None \<Rightarrow> [] | Some e \<Rightarrow> [e]))
                           None))
       \<and> (c = CHR ''D'' \<longrightarrow>
           sink_loop (Suc (length msgs + Suc n)) opts w path recur first errs tms
             = (case sinkDir n opts (w\<lparr>inp := rest, outp := outp w @ [CHR 0x00]\<rparr>) path line
                        (Some \<lparr>Atime = \<lparr>Sec = a_sec, Usec = a_usec\<rparr>,
                               Mtime = \<lparr>Sec = m_sec, Usec = m_usec\<rparr>\<rparr>) of
                  None \<Rightarrow> None
                | Some (w3, err) \<Rightarrow>
                    if isFatal err then Some (w3, err)
                    else sink_loop n opts w3 path recur False
                           (errs @ map Plain msgs @ (case err of None \<Rightarrow> [] | Some e \<Rightarrow> [e]))
                           None))"
proof -
  let ?t = "Some \<lparr>Atime = \<lparr>Sec = a_sec, Usec = a_usec\<rparr>, Mtime = \<lparr>Sec = m_sec, Usec = m_usec\<rparr>\<rparr>"
  let ?w1 = "w\<lparr>inp := concat (map soft_frame msgs) @ c # line @ CHR 0x0A # rest,
                outp := outp w @ [CHR 0x00]\<rparr>"
  let ?w2 = "?w1\<lparr>inp := c # line @ CHR 0x0A # rest\<rparr>"
  let ?w3 = "w\<lparr>inp := rest, outp := outp w @ [CHR 0x00]\<rparr>"
  have s1: "sink_loop (Suc (length msgs + Suc n)) opts w path recur first errs tms
              = sink_loop (length msgs + Suc n) opts ?w1 path recur False errs ?t"
    using assms(1,2,5,6) by (rule sink_loop_times_frame)
  have s2: "sink_loop (length msgs + Suc n) opts ?w1 path recur False errs ?t
              = sink_loop (Suc n) opts ?w2 path recur False (errs @ map Plain msgs) ?t"
    using sink_loop_soft_frames [of ?w1 msgs "c # line @ CHR 0x0A # rest" "Suc n" opts path recur
        False errs ?t] assms(3) by simp
  have i2: "inp ?w2 = c # line @ CHR 0x0A # rest" by simp
  have e: "?w2\<lparr>inp := rest\<rparr> = ?w3" by simp
  show ?thesis
  proof (intro conjI impI)
    assume c: "c = CHR ''C''"
    have i2c: "inp ?w2 = CHR ''C'' # line @ CHR 0x0A # rest" using c by simp
    have "sink_loop (Suc n) opts ?w2 path recur False (errs @ map Plain msgs) ?t
            = (case sinkFile opts (?w2\<lparr>inp := rest\<rparr>) path line ?t of
                 (w3, err) \<Rightarrow>
                   if isFatal err then Some (w3, err)
                   else sink_loop n opts w3 path recur False
                          (errs @ map Plain msgs @ (case err of None \<Rightarrow> [] | Some e \<Rightarrow> [e]))
                          None)"
      using sink_loop_frame [OF i2c assms(4), of n opts path recur False "errs @ map Plain msgs" ?t]
      by (simp add: sink_frame_def errs_case split: prod.splits)
    then show "sink_loop (Suc (length msgs + Suc n)) opts w path recur first errs tms
             = (case sinkFile opts ?w3 path line ?t of
                  (w3, err) \<Rightarrow>
                    if isFatal err then Some (w3, err)
                    else sink_loop n opts w3 path recur False
                           (errs @ map Plain msgs @ (case err of None \<Rightarrow> [] | Some e \<Rightarrow> [e]))
                           None)"
      unfolding s1 s2 e .
  next
    assume c: "c = CHR ''D''"
    have i2d: "inp ?w2 = CHR ''D'' # line @ CHR 0x0A # rest" using c by simp
    have "sink_loop (Suc n) opts ?w2 path recur False (errs @ map Plain msgs) ?t
            = (case sinkDir n opts (?w2\<lparr>inp := rest\<rparr>) path line ?t of
                 None \<Rightarrow> None
               | Some (w3, err) \<Rightarrow>
                   if isFatal err then Some (w3, err)
                   else sink_loop n opts w3 path recur False
                          (errs @ map Plain msgs @ (case err of None \<Rightarrow> [] | Some e \<Rightarrow> [e]))
                          None)"
      using sink_loop_dir [OF i2d assms(4), of n opts path recur False "errs @ map Plain msgs" ?t]
      by (simp add: errs_case split: prod.splits option.splits)
    then show "sink_loop (Suc (length msgs + Suc n)) opts w path recur first errs tms
             = (case sinkDir n opts ?w3 path line ?t of
                  None \<Rightarrow> None
                | Some (w3, err) \<Rightarrow>
                    if isFatal err then Some (w3, err)
                    else sink_loop n opts w3 path recur False
                           (errs @ map Plain msgs @ (case err of None \<Rightarrow> [] | Some e \<Rightarrow> [e]))
                           None)"
      unfolding s1 s2 e .
  qed
qed

theorem pending_times_reach_next_file_or_dir_witness:
  "inp world_times = CHR ''T'' # ''1000 0 5 0'' @ CHR 0x0A # concat (map soft_frame [''oops''])
                       @ CHR ''C'' # ''0644 1 f'' @ CHR 0x0A # ''x'' @ [CHR 0x00]
   \<and> Sscanf_dddd ''1000 0 5 0'' = Inr (4, 1000, 0, 5, 0)
   \<and> out_room world_times = None
   \<and> sink_loop (Suc (length [''oops''] + Suc 1)) opts_r world_times ''t'' False True [] None
       = (case sinkFile opts_r (world_times\<lparr>inp := ''x'' @ [CHR 0x00],
                                             outp := outp world_times @ [CHR 0x00]\<rparr>)
                 ''t'' ''0644 1 f''
                 (Some \<lparr>Atime = \<lparr>Sec = 5, Usec = 0\<rparr>, Mtime = \<lparr>Sec = 1000, Usec = 0\<rparr>\<rparr>) of
            (w3, err) \<Rightarrow>
              if isFatal err then Some (w3, err)
              else sink_loop 1 opts_r w3 ''t'' False False
                     ([] @ map Plain [''oops''] @ (case err of None \<Rightarrow> [] | Some e \<Rightarrow> [e]))
                     None)"
proof -
  have h1: "inp world_times = CHR ''T'' # ''1000 0 5 0'' @ CHR 0x0A
              # concat (map soft_frame [''oops''])
              @ CHR ''C'' # ''0644 1 f'' @ CHR 0x0A # ''x'' @ [CHR 0x00]"
    by (simp add: world_times_def)
  have h2: "CHR 0x0A \<notin> set ''1000 0 5 0''" by simp
  have h3: "\<forall>m\<in>set [''oops'']. CHR 0x0A \<notin> set m" by simp
  have h4: "CHR 0x0A \<notin> set ''0644 1 f''" by simp
  have h5: "Sscanf_dddd ''1000 0 5 0'' = Inr (4, 1000, 0, 5, 0)" by code_simp
  have h6: "out_room world_times = None" by (simp add: world_times_def world0_def)
  show ?thesis
    using h1 h5 h6
      pending_times_reach_next_file_or_dir [OF h1 h2 h3 h4 h5 h6, of 1 opts_r "''t''" False True
        "[]" None]
    by blast
qed

text \<open>
  C2, as the claim has it, fails: a \<open>T\<close> frame, a \<open>\x01\<close> frame and a \<open>C\<close> frame leave the
  file with the times of the \<open>T\<close> frame.
\<close>

theorem times_survive_soft_error:
  "map_option ntimes (node_at (sink 4 opts_r world_times ''t'' False) ''t/f'')
     = Some \<lparr>Atime = \<lparr>Sec = 5, Usec = 0\<rparr>, Mtime = \<lparr>Sec = 1000, Usec = 0\<rparr>\<rparr>"
  by code_simp

text \<open>
  C1, on the code: after \<open>D0755 0 d\<close> and \<open>E\<close>, the frame \<open>C0444 1 f\<close> is still handled by
  the \<open>sink\<close> of directory \<open>t/d\<close>. The file is \<open>t/d/f\<close>, and there is no \<open>t/f\<close>.
\<close>

theorem end_frame_does_not_return:
  "paths_of (sink 6 opts_r world_end ''t'' False) = [''t'', ''t/d'', ''t/d/f'']
   \<and> error_of (sink 6 opts_r world_end ''t'' False) = None
   \<and> node_at (sink 6 opts_r world_end ''t'' False) ''t/f'' = None"
  by code_simp

section \<open>Receiving a file\<close>

lemma lookup_logop [simp]: "lookup (logop w op q) p = lookup w p"
  by (simp add: lookup_def logop_def)

lemma deny_logop [simp]: "deny (logop w op q) = deny w"
  by (simp add: logop_def deny_def fun_eq_iff)

lemma lookup_store [simp]: "lookup (store w q n) p = (if p = q then Some n else lookup w p)"
  by (simp add: lookup_def store_def update_conv')

lemma deny_store [simp]: "deny (store w q n) = deny w"
  by (simp add: store_def deny_def fun_eq_iff)

lemma deny_inp_upd [simp]: "deny (w\<lparr>inp := x\<rparr>) = deny w"
  by (simp add: deny_def fun_eq_iff)

lemma deny_disk_upd [simp]: "deny (w\<lparr>disk_room := x\<rparr>) = deny w"
  by (simp add: deny_def fun_eq_iff)

lemma lookup_inp_upd [simp]: "lookup (w\<lparr>inp := x\<rparr>) p = lookup w p"
  by (simp add: lookup_def)

lemma lookup_disk_upd [simp]: "lookup (w\<lparr>disk_room := x\<rparr>) p = lookup w p"
  by (simp add: lookup_def)

lemma pend_fst [simp]: "fst (pend es r) = fst r"
  by (simp add: pend_def split: prod.splits option.splits)


lemma os_Stat_fst [simp]: "fst (os_Stat w p) = logop w OpStat p"
  by (simp add: os_Stat_def)

lemma os_OpenFile_ok:
  assumes "os_OpenFile w p m = (w', None)"
  shows "deny w' = deny w"
    and "lookup w p = None \<Longrightarrow> \<exists>n. lookup w' p = Some n \<and> nkind n = Regular"
    and "lookup w p = Some n \<Longrightarrow> lookup w' p = Some n"
  using assms by (auto simp add: os_OpenFile_def split: option.splits if_splits)

lemma f_Stat_ok:
  assumes "f_Stat w p = (w', Inr st)"
  shows "lookup w p = Some st" and "w' = logop w OpFStat p"
  using assms by (auto simp add: f_Stat_def split: option.splits)

lemma sinkFile_open_ok:
  assumes "sinkFile_open w name line = Inr (w1, perm, sz, p, ex, st)"
  shows "lookup w1 p = Some st" and "deny w1 = deny w"
    and "lookup w p = None \<Longrightarrow> nkind st = Regular"
    and "lookup w p = Some n \<Longrightarrow> st = n"
proof -
  from assms obtain perm' sz' subj where ps: "parseSubj line = Inr (perm', sz', subj)"
    by (auto simp add: sinkFile_open_def split: sum.splits)
  obtain r where r: "snd (os_Stat w name) = r" by simp
  then have st1: "os_Stat w name = (logop w OpStat name, r)"
    by (metis os_Stat_fst prod.collapse)
  define q where "q = (case r of Inr st \<Rightarrow> if IsDir st then path_Join name subj else name
                          | Inl err \<Rightarrow> name)"
  from assms ps st1 obtain w2 where
    o: "os_OpenFile (logop w OpStat name) q (perm' OR S_IWUSR) = (w2, None)"
    by (auto simp add: sinkFile_open_def Let_def q_def split: sum.splits option.splits prod.splits)
  from assms ps st1 o obtain w3 st' where
    f: "f_Stat w2 q = (w3, Inr st')"
    by (auto simp add: sinkFile_open_def Let_def q_def split: sum.splits option.splits prod.splits)
  from assms ps st1 o f have
    z: "put_zero w3 = (w1, None)" and e: "p = q" "st = st'"
    by (auto simp add: sinkFile_open_def Let_def q_def split: sum.splits option.splits prod.splits)
  have oo: "out_only w3 w1" using put_zero_only [of w3] z by simp
  have w3: "w3 = logop w2 OpFStat q" and l2: "lookup w2 q = Some st'"
    using f_Stat_ok [OF f] by simp_all
  show "lookup w1 p = Some st"
    using out_only_fields(6) [OF oo, of p] w3 l2 e by simp
  show "deny w1 = deny w"
    using out_only_fields(5) [OF oo] w3 os_OpenFile_ok(1) [OF o] by simp
  show "lookup w p = None \<Longrightarrow> nkind st = Regular"
    using os_OpenFile_ok(2) [OF o] l2 e by auto
  show "lookup w p = Some n \<Longrightarrow> st = n"
    using os_OpenFile_ok(3) [OF o, of n] l2 e by auto
qed

lemma file_write_lookup:
  "lookup w p = Some n \<Longrightarrow>
     lookup (file_write w p bytes) p = Some (n\<lparr>ndata := bytes @ drop (length bytes) (ndata n)\<rparr>)"
  by (simp add: file_write_def)

lemma file_write_deny [simp]: "deny (file_write w p bytes) = deny w"
  by (simp add: file_write_def split: option.splits)

lemma copy_to_file_keeps:
  assumes "copy_to_file w p sz = (w', wr, err)" and "lookup w p = Some n"
  shows "\<exists>n'. lookup w' p = Some n'" and "deny w' = deny w"
  using assms
  by (auto simp add: copy_to_file_def Let_def file_write_def split: option.splits if_splits)

lemma drain_keeps [simp]:
  "lookup (fst (drain w k)) p = lookup w p" "deny (fst (drain w k)) = deny w"
  by (simp_all add: drain_def)

lemma sinkFile_copy_keeps:
  assumes "sinkFile_copy w p sz = Inr (w', pendErrs)" and "lookup w p = Some n"
  shows "\<exists>n'. lookup w' p = Some n'" and "deny w' = deny w"
proof -
  obtain w1 wr err where c: "copy_to_file w p sz = (w1, wr, err)"
    by (metis prod_cases3)
  have k: "\<exists>n'. lookup w1 p = Some n'" "deny w1 = deny w"
    using copy_to_file_keeps [OF c assms(2)] by simp_all
  have "w' = w1 \<or> w' = fst (drain w1 (sz - wr))"
    using assms(1) c by (auto simp add: sinkFile_copy_def split: option.splits prod.splits)
  then show "\<exists>n'. lookup w' p = Some n'" and "deny w' = deny w"
    using k by auto
qed

lemma f_Truncate_len:
  assumes "lookup w p = Some n" and "deny w OpTruncate p = None" and "0 \<le> sz"
  shows "data_len (fst (f_Truncate w p sz)) p = Some (nat sz)"
  using assms by (simp add: f_Truncate_def data_len_def)

lemma f_Truncate_deny [simp]: "deny (fst (f_Truncate w p sz)) = deny w"
  by (simp add: f_Truncate_def split: option.splits)

lemma f_Sync_keeps [simp]:
  "data_len (fst (f_Sync w q)) p = data_len w p"
  by (simp add: f_Sync_def data_len_def)

lemma set_perm_keeps [simp]:
  "data_len (fst (set_perm w op q m)) p = data_len w p"
  by (auto simp add: set_perm_def data_len_def split: option.splits)

lemma Utimes_keeps [simp]:
  "data_len (fst (Utimes w q t)) p = data_len w p"
  by (auto simp add: Utimes_def data_len_def split: option.splits if_splits)


lemma sinkFile_attrs_len:
  assumes "lookup w p = Some n" and "deny w OpTruncate p = None" and "0 \<le> sz"
    and "\<not> ex \<or> IsRegular st"
  shows "data_len (fst (sinkFile_attrs opts w p perm sz ex st tms pendErrs)) p = Some (nat sz)"
  using f_Truncate_len [OF assms(1-3)] assms(4)
  by (simp add: sinkFile_attrs_def case_prod_beta f_Chmod_def split: option.splits)


lemma ack_keeps [simp]: "lookup (fst (ack w)) p = lookup w p"
  by (auto simp add: ack_def read_byte_def readLine_def
      split: list.splits option.splits rd.splits prod.splits sum.splits)

lemma sinkFile_reply_keeps [simp]: "lookup (fst (sinkFile_reply w pendErrs)) p = lookup w p"
proof -
  have a: "\<And>w e. lookup (fst (sendError w e)) p = lookup w p"
    using out_only_fields(6) [OF sendError_only] by simp
  have b: "\<And>w. lookup (fst (put_zero w)) p = lookup w p"
    using out_only_fields(6) [OF put_zero_only] by simp
  show ?thesis
    by (auto simp add: sinkFile_reply_def case_prod_beta a b split: option.splits)
qed


text \<open>
  C6. When \<open>sinkFile\<close> has opened the file for a \<open>C\<close> frame of size \<open>sz\<close>, the file did not
  exist before or was a regular file (of any length), the payload stage has not ended
  with a fatal error and \<open>Truncate\<close> is not refused, then after \<open>sinkFile\<close> the file is
  exactly \<open>sz\<close> bytes long.
\<close>

theorem sinkFile_truncates:
  assumes "sinkFile_open w name line = Inr (w1, perm, sz, p, ex, st)"
    and "lookup w p = None \<or> (\<exists>n. lookup w p = Some n \<and> nkind n = Regular)"
    and "sinkFile_copy w1 p sz = Inr (w2, pendErrs)"
    and "deny w OpTruncate p = None" and "0 \<le> sz"
  shows "data_len (fst (sinkFile opts w name line tms)) p = Some (nat sz)"
proof -
  have l1: "lookup w1 p = Some st" and d1: "deny w1 = deny w"
    using sinkFile_open_ok(1,2) [OF assms(1)] by simp_all
  have reg: "IsRegular st"
    using assms(2) sinkFile_open_ok(3,4) [OF assms(1)] by (auto simp add: IsRegular_def)
  obtain n' where l2: "lookup w2 p = Some n'"
    using sinkFile_copy_keeps(1) [OF assms(3) l1] by blast
  have d2: "deny w2 OpTruncate p = None"
    using sinkFile_copy_keeps(2) [OF assms(3) l1] d1 assms(4) by simp
  have "data_len (fst (sinkFile_attrs opts w2 p perm sz ex st tms pendErrs)) p = Some (nat sz)"
    using l2 d2 assms(5) reg by (simp add: sinkFile_attrs_len)
  then show ?thesis
    using assms(1,3) by (simp add: sinkFile_def data_len_def case_prod_beta)
qed

theorem sinkFile_truncates_witness:
  "sinkFile_open world_trunc ''t'' ''0644 3 f''
     = Inr (world_trunc_open, 0x1A4, 3, ''t/f'', True, old_file)
   \<and> lookup world_trunc ''t/f'' = Some old_file \<and> nkind old_file = Regular
   \<and> length (ndata old_file) = 10
   \<and> sinkFile_copy world_trunc_open ''t/f'' 3 = Inr (world_trunc_copied, [])
   \<and> data_len (fst (sinkFile opts_r world_trunc ''t'' ''0644 3 f'' None)) ''t/f'' = Some (nat 3)"
proof -
  have h1: "sinkFile_open world_trunc ''t'' ''0644 3 f''
              = Inr (world_trunc_open, 0x1A4, 3, ''t/f'', True, old_file)"
    by code_simp
  have h2: "lookup world_trunc ''t/f'' = Some old_file \<and> nkind old_file = Regular
              \<and> length (ndata old_file) = 10"
    by code_simp
  then have h2': "lookup world_trunc ''t/f'' = None
                    \<or> (\<exists>n. lookup world_trunc ''t/f'' = Some n \<and> nkind n = Regular)"
    by blast
  have h3: "sinkFile_copy world_trunc_open ''t/f'' 3 = Inr (world_trunc_copied, [])"
    by code_simp
  have h4: "deny world_trunc OpTruncate ''t/f'' = None" by code_simp
  have h5: "(0::int) \<le> 3" by simp
  show ?thesis
    using h1 h2 h3 sinkFile_truncates [OF h1 h2' h3 h4 h5, where opts = opts_r and tms = None]
    by blast
qed



text \<open>
  C7, on the code: a file \<open>t/f\<close> that did not exist is received into the directory \<open>t\<close>
  with declared permissions \<open>0444\<close> and without \<open>-p\<close>. \<open>sinkFile\<close> makes no \<open>Chmod\<close> call,
  and the file keeps the permissions it was opened with, \<open>0644\<close>.
\<close>

theorem new_file_in_directory_not_chmodded:
  "parseSubj ''0444 1 f'' = Inr (0x124, 1, ''f'')
   \<and> lookup world_chmod ''t/f'' = None
   \<and> map_option nperm (node_at (Some (sinkFile opts_r world_chmod ''t'' ''0444 1 f'' None)) ''t/f'')
       = Some 0x1A4
   \<and> log_of (Some (sinkFile opts_r world_chmod ''t'' ''0444 1 f'' None))
       = [(OpStat, ''t''), (OpOpenFile, ''t/f''), (OpFStat, ''t/f''), (OpTruncate, ''t/f''),
          (OpSync, ''t/f'')]
   \<and> error_of (Some (sinkFile opts_r world_chmod ''t'' ''0444 1 f'' None)) = None"
  by code_simp

section \<open>Sending a file\<close>

text \<open>
  C4. When \<open>send\<close> has sent the header of a regular file and the copy of its content fails
  after \<open>sent\<close> bytes, \<open>send\<close> writes \<open>size - sent\<close> zero bytes. If that write fails, \<open>send\<close>
  returns a fatal error. If it does not, exactly these zero bytes have been added to the
  output, \<open>send\<close> reads one acknowledgement and returns its error if it has one; after a
  clean acknowledgement it reports the error of the copy to the peer and returns it, an
  error that is not fatal.
\<close>

theorem send_copy_failure:
  assumes "os_Open w name = (w1, None)" and "f_Stat w1 name = (w2, Inr st)" and "IsRegular st"
    and "send_header opts w2 name st = (w3, None)"
    and "copy_from_file w3 name = (w4, sent, Some e)"
  shows "(snd (write_out w4 (replicate (nat (int (length (ndata st)) - sent)) (CHR 0x00))) \<noteq> None \<longrightarrow>
            (\<exists>w' m. send n opts w name = Some (w', Some (FatalError m))))
       \<and> (write_out w4 (replicate (nat (int (length (ndata st)) - sent)) (CHR 0x00)) = (w5, None) \<longrightarrow>
            outp w5 = outp w4 @ replicate (nat (int (length (ndata st)) - sent)) (CHR 0x00)
            \<and> send n opts w name
                = Some (case ack w5 of
                          (w6, Some a) \<Rightarrow> (w6, Some a)
                        | (w6, None) \<Rightarrow> teeError w6 (Plain e))
            \<and> (ack w5 = (w6, None) \<and> snd (sendError w6 (Plain e)) = None \<longrightarrow>
                 send n opts w name = Some (fst (sendError w6 (Plain e)), Some (Plain e))))"
proof -
  let ?pad = "replicate (nat (int (length (ndata st)) - sent)) (CHR 0x00)"
  have nd: "\<not> IsDir st" using assms(3) by (simp add: IsDir_def IsRegular_def)
  have s: "send n opts w name = Some (send_payload w3 name st)"
    using assms(1-4) nd by (simp add: send.simps)
  show ?thesis
  proof (intro conjI impI)
    assume "snd (write_out w4 ?pad) \<noteq> None"
    then obtain w' m where "write_out w4 ?pad = (w', Some m)"
      by (metis option.exhaust prod.collapse)
    then have "send_payload w3 name st = (w', Some (FatalError m))"
      using assms(5) by (simp add: send_payload_def)
    then show "\<exists>w' m. send n opts w name = Some (w', Some (FatalError m))"
      using s by simp
  next
    assume p: "write_out w4 ?pad = (w5, None)"
    then show "outp w5 = outp w4 @ ?pad" by (rule write_out_ok)
    show "send n opts w name
            = Some (case ack w5 of
                      (w6, Some a) \<Rightarrow> (w6, Some a)
                    | (w6, None) \<Rightarrow> teeError w6 (Plain e))"
      using s assms(5) p by (simp add: send_payload_def)
  next
    assume "write_out w4 ?pad = (w5, None)"
      and "ack w5 = (w6, None) \<and> snd (sendError w6 (Plain e)) = None"
    then show "send n opts w name = Some (fst (sendError w6 (Plain e)), Some (Plain e))"
      using s assms(5)
      by (simp add: send_payload_def teeError_def split: prod.splits option.splits)
  qed
qed

theorem send_copy_failure_witness:
  "os_Open world_send ''src.txt'' = (world_send_open, None)
   \<and> f_Stat world_send_open ''src.txt'' = (world_send_stat, Inr src_file)
   \<and> send_header opts_r world_send_stat ''src.txt'' src_file = (world_send_header, None)
   \<and> copy_from_file world_send_header ''src.txt'' = (world_send_copied, 2, Some EIO)
   \<and> write_out world_send_copied (replicate (nat (int (length (ndata src_file)) - 2)) (CHR 0x00))
       = (world_send_padded, None)
   \<and> outp world_send_padded
       = outp world_send_copied @ replicate (nat (int (length (ndata src_file)) - 2)) (CHR 0x00)
   \<and> ack world_send_padded = (world_send_acked, None)
   \<and> send 0 opts_r world_send ''src.txt''
       = Some (fst (sendError world_send_acked (Plain EIO)), Some (Plain EIO))"
proof -
  have h1: "os_Open world_send ''src.txt'' = (world_send_open, None)" by code_simp
  have h2: "f_Stat world_send_open ''src.txt'' = (world_send_stat, Inr src_file)" by code_simp
  have h3: "IsRegular src_file" by code_simp
  have h4: "send_header opts_r world_send_stat ''src.txt'' src_file = (world_send_header, None)"
    by code_simp
  have h5: "copy_from_file world_send_header ''src.txt'' = (world_send_copied, 2, Some EIO)"
    by code_simp
  have h6: "write_out world_send_copied
              (replicate (nat (int (length (ndata src_file)) - 2)) (CHR 0x00))
              = (world_send_padded, None)"
    by code_simp
  have h7: "ack world_send_padded = (world_send_acked, None)" by code_simp
  have h8: "snd (sendError world_send_acked (Plain EIO)) = None" by code_simp
  show ?thesis
    using h1 h2 h4 h5 h6 h7 h8
      send_copy_failure [OF h1 h2 h3 h4 h5, where ?w5.0 = world_send_padded
          and ?w6.0 = world_send_acked and n = 0]
    by blast
qed

end
